theory Spec2Isabelle
  imports Main
begin

section \<open>Go's time package\<close>

text \<open>
  The hooks read the clock with \<^verbatim>\<open>time.Now().Local()\<close> and compute with the resulting
  \<^verbatim>\<open>time.Time\<close>: \<^verbatim>\<open>Add\<close>, \<^verbatim>\<open>AddDate\<close>, \<^verbatim>\<open>Format\<close>, the calendar fields, \<^verbatim>\<open>time.Date\<close>
  in the instant's own location, and \<^verbatim>\<open>Sub\<close>. This section models that part of the
  library: an instant is a number of nanoseconds since 1970-01-01 00:00:00 UTC together
  with a location, and a location gives the offset from UTC in force at every instant.
  A \<^verbatim>\<open>time.Duration\<close> is a number of nanoseconds; Go keeps it in a signed 64-bit integer
  and \<^verbatim>\<open>Time.Sub\<close> saturates at the ends of that range, which is written out below.
\<close>

type_synonym Duration = int

definition Nanosecond :: Duration where "Nanosecond = 1"
definition Second :: Duration where "Second = 1000000000"
definition Minute :: Duration where "Minute = 60000000000"
definition Hour :: Duration where "Hour = 3600000000000"

definition maxDuration :: Duration where "maxDuration = 9223372036854775807"
definition minDuration :: Duration where "minDuration = - 9223372036854775808"

subsection \<open>The proleptic Gregorian calendar on wall-clock readings\<close>

text \<open>
  A wall-clock reading is the number of nanoseconds between 1970-01-01 00:00:00 and the
  date and time of day a clock in some location shows. The functions \<open>wall\<dots>\<close> convert
  between readings and calendar fields; no location is involved yet.
\<close>

definition dayNanos :: int where "dayNanos = 86400000000000"

definition isLeap :: "int \<Rightarrow> bool" where
  "isLeap y = (y mod 4 = 0 \<and> (y mod 100 \<noteq> 0 \<or> y mod 400 = 0))"

text \<open>Days from 1970-01-01 to January 1st of year \<open>y\<close>.\<close>

definition daysSinceEpoch :: "int \<Rightarrow> int" where
  "daysSinceEpoch y =
     365 * (y - 1970) + ((y - 1) div 4 - (y - 1) div 100 + (y - 1) div 400) - 477"

text \<open>
  \<open>daysBefore m\<close> is the number of days in a non-leap year before month \<open>m + 1\<close>
  (Go's table of the same name, indexed from 0).
\<close>

definition daysBefore :: "int \<Rightarrow> int" where
  "daysBefore m =
     (if m \<le> 0 then 0 else if m = 1 then 31 else if m = 2 then 59 else if m = 3 then 90
      else if m = 4 then 120 else if m = 5 then 151 else if m = 6 then 181
      else if m = 7 then 212 else if m = 8 then 243 else if m = 9 then 273
      else if m = 10 then 304 else if m = 11 then 334 else 365)"

text \<open>The day of the year (from 0) on which month \<open>m\<close> (from 1) of year \<open>y\<close> starts.\<close>

definition monthStart :: "int \<Rightarrow> int \<Rightarrow> int" where
  "monthStart y m = daysBefore (m - 1) + (if isLeap y \<and> 3 \<le> m then 1 else 0)"

text \<open>
  The reading that shows the given fields. As in \<^verbatim>\<open>time.Date\<close>, the month is normalised
  into the year and every other field may lie outside its usual range and carries over
  (October 32 is November 1).
\<close>

definition wallDate :: "int \<Rightarrow> int \<Rightarrow> int \<Rightarrow> int \<Rightarrow> int \<Rightarrow> int \<Rightarrow> int \<Rightarrow> int" where
  "wallDate year month day hour minute sec nsec =
     (let m0 = month - 1;
          y = year + m0 div 12;
          m = m0 mod 12 + 1;
          d = daysSinceEpoch y + monthStart y m + (day - 1)
      in (d * 86400 + hour * 3600 + minute * 60 + sec) * Second + nsec)"

text \<open>The civil day (days since 1970-01-01) a reading lies on.\<close>

definition dayOf :: "int \<Rightarrow> int" where
  "dayOf r = r div dayNanos"

definition yearOfDay :: "int \<Rightarrow> int" where
  "yearOfDay z =
     (let y0 = 1970 + (z * 400) div 146097
      in if daysSinceEpoch (y0 + 1) \<le> z then y0 + 1
         else if z < daysSinceEpoch y0 then y0 - 1
         else y0)"

definition monthOfYday :: "int \<Rightarrow> int \<Rightarrow> int" where
  "monthOfYday y yd =
     (if yd < monthStart y 2 then 1 else if yd < monthStart y 3 then 2
      else if yd < monthStart y 4 then 3 else if yd < monthStart y 5 then 4
      else if yd < monthStart y 6 then 5 else if yd < monthStart y 7 then 6
      else if yd < monthStart y 8 then 7 else if yd < monthStart y 9 then 8
      else if yd < monthStart y 10 then 9 else if yd < monthStart y 11 then 10
      else if yd < monthStart y 12 then 11 else 12)"

definition wallYear :: "int \<Rightarrow> int" where
  "wallYear r = yearOfDay (dayOf r)"

definition wallMonth :: "int \<Rightarrow> int" where
  "wallMonth r = monthOfYday (wallYear r) (dayOf r - daysSinceEpoch (wallYear r))"

definition wallDay :: "int \<Rightarrow> int" where
  "wallDay r = dayOf r - daysSinceEpoch (wallYear r) - monthStart (wallYear r) (wallMonth r) + 1"

text \<open>The day of the year, from 1, and the day of the week, Sunday being 0.\<close>

definition wallYearDay :: "int \<Rightarrow> int" where
  "wallYearDay r = dayOf r - daysSinceEpoch (wallYear r) + 1"

definition wallWeekday :: "int \<Rightarrow> int" where
  "wallWeekday r = (dayOf r + 4) mod 7"

definition wallHour :: "int \<Rightarrow> int" where
  "wallHour r = (r div Hour) mod 24"

definition wallMinute :: "int \<Rightarrow> int" where
  "wallMinute r = (r div Minute) mod 60"

definition wallSecond :: "int \<Rightarrow> int" where
  "wallSecond r = (r div Second) mod 60"

definition wallNanosecond :: "int \<Rightarrow> int" where
  "wallNanosecond r = r mod Second"

subsection \<open>Locations\<close>

text \<open>
  A \<^verbatim>\<open>*time.Location\<close>: the zone in force before the first transition (its offset east
  of UTC in seconds and its abbreviation) and the transitions in ascending order, each
  with the Unix second at which it happens and the zone in force from then on. After the
  last transition listed the zone stays (the rule string with which Go extends a zone
  file beyond its last transition is not modelled). \<open>lookup\<close> returns the abbreviation
  and offset in force at a Unix second and the interval of that zone, as Go's
  \<^verbatim>\<open>Location.lookup\<close> does, with its sentinels \<open>alpha\<close> and \<open>omega\<close> at the open ends.
\<close>

record Location =
  zoneName :: string
  zoneOffset :: int
  zoneTrans :: "(int \<times> string \<times> int) list"

definition alpha :: int where "alpha = - 9223372036854775808"
definition omega :: int where "omega = 9223372036854775807"

fun lookupFrom ::
  "string \<Rightarrow> int \<Rightarrow> int \<Rightarrow> (int \<times> string \<times> int) list \<Rightarrow> int \<Rightarrow> string \<times> int \<times> int \<times> int" where
  "lookupFrom name offset start [] sec = (name, offset, start, omega)"
| "lookupFrom name offset start ((at, name', offset') # txs) sec =
     (if sec < at then (name, offset, start, at)
      else lookupFrom name' offset' at txs sec)"

definition lookup :: "Location \<Rightarrow> int \<Rightarrow> string \<times> int \<times> int \<times> int" where
  "lookup l sec = lookupFrom (zoneName l) (zoneOffset l) alpha (zoneTrans l) sec"

definition UTC :: Location where
  "UTC = \<lparr>zoneName = ''UTC'', zoneOffset = 0, zoneTrans = []\<rparr>"

subsection \<open>Instants\<close>

record Time =
  unixNano :: int
  loc :: Location

text \<open>The zone in force at an instant, and the reading a clock in its location shows.\<close>

definition zoneAt :: "Time \<Rightarrow> string \<times> int" where
  "zoneAt t = (case lookup (loc t) (unixNano t div Second) of
                 (name, offset, start, stop) \<Rightarrow> (name, offset))"

definition wall :: "Time \<Rightarrow> int" where
  "wall t = unixNano t + snd (zoneAt t) * Second"

definition Year :: "Time \<Rightarrow> int" where "Year t = wallYear (wall t)"
definition Month :: "Time \<Rightarrow> int" where "Month t = wallMonth (wall t)"
definition Day :: "Time \<Rightarrow> int" where "Day t = wallDay (wall t)"
definition Hour_of :: "Time \<Rightarrow> int" where "Hour_of t = wallHour (wall t)"
definition Minute_of :: "Time \<Rightarrow> int" where "Minute_of t = wallMinute (wall t)"
definition Second_of :: "Time \<Rightarrow> int" where "Second_of t = wallSecond (wall t)"
definition Nanosecond_of :: "Time \<Rightarrow> int" where "Nanosecond_of t = wallNanosecond (wall t)"

text \<open>
  \<^verbatim>\<open>time.Date(year, month, day, hour, min, sec, nsec, loc)\<close>. The fields give a reading;
  to find the instant, Go looks up the zone at the Unix second equal to the reading,
  subtracts its offset, and if the result falls outside that zone's interval looks up
  the zone again at the result. A reading that a clock shows twice (when clocks are set
  back) or never (when they are set forward) is resolved by this rule, whatever it gives.
\<close>

definition Date ::
  "int \<Rightarrow> int \<Rightarrow> int \<Rightarrow> int \<Rightarrow> int \<Rightarrow> int \<Rightarrow> int \<Rightarrow> Location \<Rightarrow> Time" where
  "Date year month day hour minute sec nsec l =
     (let r = wallDate year month day hour minute sec nsec;
          unix = r div Second
      in case lookup l unix of
           (name, offset, start, stop) \<Rightarrow>
             (if offset \<noteq> 0
              then (let utc = unix - offset;
                        offset1 = (if utc < start \<or> stop \<le> utc
                                   then fst (snd (lookup l utc))
                                   else offset)
                    in \<lparr>unixNano = r - offset1 * Second, loc = l\<rparr>)
              else \<lparr>unixNano = r, loc = l\<rparr>))"

definition Add :: "Time \<Rightarrow> Duration \<Rightarrow> Time" where
  "Add t d = t\<lparr>unixNano := unixNano t + d\<rparr>"

definition AddDate :: "Time \<Rightarrow> int \<Rightarrow> int \<Rightarrow> int \<Rightarrow> Time" where
  "AddDate t years months days =
     Date (Year t + years) (Month t + months) (Day t + days)
          (Hour_of t) (Minute_of t) (Second_of t) (Nanosecond_of t) (loc t)"

definition Sub :: "Time \<Rightarrow> Time \<Rightarrow> Duration" where
  "Sub t u =
     (let d = unixNano t - unixNano u
      in if maxDuration < d then maxDuration
         else if d < minDuration then minDuration
         else d)"

section \<open>Strings and paths\<close>

text \<open>
  A Go string is a sequence of bytes. \<^verbatim>\<open>strings.ToLower\<close> is modelled on the ASCII
  letters and leaves every other byte as it is; the hooks only compare its result with
  \<open>.gz\<close>, which no other string is mapped to.
\<close>

definition toLowerChar :: "char \<Rightarrow> char" where
  "toLowerChar c =
     (case map_of (zip ''ABCDEFGHIJKLMNOPQRSTUVWXYZ'' ''abcdefghijklmnopqrstuvwxyz'') c of
        Some l \<Rightarrow> l
      | None \<Rightarrow> c)"

definition ToLower :: "string \<Rightarrow> string" where
  "ToLower s = map toLowerChar s"

definition HasSuffix :: "string \<Rightarrow> string \<Rightarrow> bool" where
  "HasSuffix s suffix =
     (length suffix \<le> length s \<and> drop (length s - length suffix) s = suffix)"

definition TrimSuffix :: "string \<Rightarrow> string \<Rightarrow> string" where
  "TrimSuffix s suffix =
     (if HasSuffix s suffix then take (length s - length suffix) s else s)"

text \<open>
  \<^verbatim>\<open>filepath.Ext\<close> scans the path from its end towards the last separator and returns
  the suffix that starts at the first dot it meets, or the empty string. \<open>extRev\<close> does the
  scan on the reversed path, \<open>acc\<close> holding the characters already passed.
\<close>

fun extRev :: "string \<Rightarrow> string \<Rightarrow> string" where
  "extRev [] acc = []"
| "extRev (c # cs) acc =
     (if c = CHR ''/'' then []
      else if c = CHR ''.'' then c # acc
      else extRev cs (c # acc))"

definition Ext :: "string \<Rightarrow> string" where
  "Ext path = extRev (rev path) []"

text \<open>
  \<^verbatim>\<open>filepath.Clean\<close>, on the elements of the path: empty elements and \<open>.\<close> are dropped,
  \<open>..\<close> removes the element before it, or stays if the path is not rooted and there is
  none to remove. \<open>elements\<close> splits at the separators; \<open>cleanStack\<close> keeps the cleaned
  elements, last one first.
\<close>

fun elements :: "string \<Rightarrow> string \<Rightarrow> string list" where
  "elements [] cur = [rev cur]"
| "elements (c # cs) cur =
     (if c = CHR ''/'' then rev cur # elements cs [] else elements cs (c # cur))"

fun cleanStack :: "bool \<Rightarrow> string list \<Rightarrow> string list \<Rightarrow> string list" where
  "cleanStack rooted [] stack = stack"
| "cleanStack rooted (e # es) stack =
     (if e = [] \<or> e = ''.'' then cleanStack rooted es stack
      else if e = ''..'' then
        (case stack of
           prev # below \<Rightarrow>
             (if prev = ''..'' then cleanStack rooted es (e # stack)
              else cleanStack rooted es below)
         | [] \<Rightarrow> (if rooted then cleanStack rooted es stack else cleanStack rooted es [e]))
      else cleanStack rooted es (e # stack))"

fun joinSlash :: "string list \<Rightarrow> string" where
  "joinSlash [] = []"
| "joinSlash [e] = e"
| "joinSlash (e # es) = e @ ''/'' @ joinSlash es"

definition Clean :: "string \<Rightarrow> string" where
  "Clean path =
     (let rooted = (path \<noteq> [] \<and> hd path = CHR ''/'');
          body = joinSlash (rev (cleanStack rooted (elements path []) []))
      in if rooted then CHR ''/'' # body
         else if body = [] then ''.''
         else body)"

text \<open>\<^verbatim>\<open>filepath.Dir\<close>: the path up to its last separator, cleaned.\<close>

definition Dir :: "string \<Rightarrow> string" where
  "Dir path = Clean (rev (dropWhile (\<lambda>c. c \<noteq> CHR ''/'') (rev path)))"

section \<open>The operating system\<close>

datatype error = ErrNotExist | ErrPermission | ErrIO | ErrFormat

definition IsNotExist :: "error \<Rightarrow> bool" where
  "IsNotExist err = (err = ErrNotExist)"

text \<open>
  An open \<^verbatim>\<open>*os.File\<close>: the name it was opened with and the inode it refers to.
  Removing the name from the directory leaves the inode, and a handle on it, in place.
\<close>

record File =
  Name :: string
  ino :: nat

text \<open>The lines the hooks print through the standard logger, by their format string.\<close>

datatype logline =
    LogCreate error
  | LogClose string error
  | LogMkdir error
  | LogWrite error
  | LogArchive string error

text \<open>
  The state of the world outside the hook: the names of the files (path to inode), the
  content of every inode, the next unused inode, the output of the standard logger, and
  for every system call the error it would fail with if it were made now. A failing
  write or copy also says how many bytes reach the file before the error. Directories
  and permissions are not tracked: whether \<^verbatim>\<open>os.MkdirAll\<close> or an open fails, and with
  which error, is what these fields say, and the theorems below hold for every value
  they can take.
\<close>

record OS =
  names :: "string \<rightharpoonup> nat"
  content :: "nat \<Rightarrow> string"
  nextIno :: nat
  logged :: "logline list"
  mkdirFault :: "string \<Rightarrow> error option"
  openFault :: "string \<Rightarrow> error option"
  statFault :: "string \<Rightarrow> error option"
  closeFault :: "File \<Rightarrow> error option"
  writeFault :: "File \<Rightarrow> string \<Rightarrow> (nat \<times> error) option"
  removeFault :: "string \<Rightarrow> error option"
  copyFault :: "string \<Rightarrow> (nat \<times> error) option"
  flushFault :: "string \<Rightarrow> nat option"

definition Printf :: "logline \<Rightarrow> OS \<Rightarrow> OS" where
  "Printf l w = w\<lparr>logged := logged w @ [l]\<rparr>"

definition MkdirAll :: "string \<Rightarrow> OS \<Rightarrow> error option \<times> OS" where
  "MkdirAll dir w = (mkdirFault w dir, w)"

text \<open>\<^verbatim>\<open>os.OpenFile(name, O_APPEND|O_CREATE|O_WRONLY, 0664)\<close>.\<close>

definition OpenFile :: "string \<Rightarrow> OS \<Rightarrow> (error + File) \<times> OS" where
  "OpenFile name w =
     (case openFault w name of
        Some e \<Rightarrow> (Inl e, w)
      | None \<Rightarrow>
          (case names w name of
             Some i \<Rightarrow> (Inr \<lparr>Name = name, ino = i\<rparr>, w)
           | None \<Rightarrow>
               (Inr \<lparr>Name = name, ino = nextIno w\<rparr>,
                w\<lparr>names := (names w)(name \<mapsto> nextIno w),
                  content := (content w)(nextIno w := []),
                  nextIno := Suc (nextIno w)\<rparr>)))"

text \<open>\<^verbatim>\<open>os.Open(name)\<close>, for reading.\<close>

definition Open :: "string \<Rightarrow> OS \<Rightarrow> error + File" where
  "Open name w =
     (case openFault w name of
        Some e \<Rightarrow> Inl e
      | None \<Rightarrow>
          (case names w name of
             Some i \<Rightarrow> Inr \<lparr>Name = name, ino = i\<rparr>
           | None \<Rightarrow> Inl ErrNotExist))"

definition appendTo :: "nat \<Rightarrow> string \<Rightarrow> OS \<Rightarrow> OS" where
  "appendTo i b w = w\<lparr>content := (content w)(i := content w i @ b)\<rparr>"

text \<open>\<^verbatim>\<open>File.Write\<close> on a file opened with \<^verbatim>\<open>O_APPEND\<close>.\<close>

definition Write :: "File \<Rightarrow> string \<Rightarrow> OS \<Rightarrow> error option \<times> OS" where
  "Write f b w =
     (case writeFault w f b of
        Some (n, e) \<Rightarrow> (Some e, appendTo (ino f) (take n b) w)
      | None \<Rightarrow> (None, appendTo (ino f) b w))"

definition Close :: "File \<Rightarrow> OS \<Rightarrow> error option" where
  "Close f w = closeFault w f"

definition Stat :: "string \<Rightarrow> OS \<Rightarrow> error option" where
  "Stat name w =
     (case statFault w name of
        Some e \<Rightarrow> Some e
      | None \<Rightarrow> (if names w name = None then Some ErrNotExist else None))"

definition Remove :: "string \<Rightarrow> OS \<Rightarrow> error option \<times> OS" where
  "Remove name w =
     (case removeFault w name of
        Some e \<Rightarrow> (Some e, w)
      | None \<Rightarrow>
          (case names w name of
             None \<Rightarrow> (Some ErrNotExist, w)
           | Some i \<Rightarrow> (None, w\<lparr>names := (names w)(name := None)\<rparr>)))"

text \<open>What a path holds, if it names a file.\<close>

definition fileContent :: "OS \<Rightarrow> string \<Rightarrow> string option" where
  "fileContent w name = map_option (content w) (names w name)"

section \<open>The standard library the hooks are given\<close>

text \<open>
  \<^verbatim>\<open>Time.Format\<close> renders an instant under a layout, and \<^verbatim>\<open>compress/gzip\<close> turns a byte
  stream into its compressed form. Both belong to Go's library; the hooks are modelled
  over any pair of such functions.
\<close>

record Lib =
  Format :: "Time \<Rightarrow> string \<Rightarrow> string"
  Gzip :: "string \<Rightarrow> string"


section \<open>The archiver (file\_archive.go)\<close>

definition GzipSuffix :: string where
  "GzipSuffix = ''.gz''"

text \<open>
  \<open>gzipArchive\<close>: open \<open>fileName + ".gz"\<close> for appending, open the original for reading,
  copy it through a gzip writer, flush and close the writer. The results of
  \<^verbatim>\<open>writer.Flush()\<close> and \<^verbatim>\<open>writer.Close()\<close> are dropped by the source: when they fail
  only part of the stream reaches the file and the function still returns nil.
\<close>

definition gzipArchive :: "Lib \<Rightarrow> string \<Rightarrow> OS \<Rightarrow> error option \<times> OS" where
  "gzipArchive lib fileName w =
     (let gzFileName = fileName @ GzipSuffix
      in case OpenFile gzFileName w of
           (Inl err, w1) \<Rightarrow> (Some err, w1)
         | (Inr gzFile, w1) \<Rightarrow>
             (case Open fileName w1 of
                Inl err \<Rightarrow> (Some err, w1)
              | Inr oldFile \<Rightarrow>
                  (let stream = Gzip lib (content w1 (ino oldFile))
                   in case copyFault w1 fileName of
                        Some (n, err) \<Rightarrow> (Some err, appendTo (ino gzFile) (take n stream) w1)
                      | None \<Rightarrow>
                          (case flushFault w1 fileName of
                             Some n \<Rightarrow> (None, appendTo (ino gzFile) (take n stream) w1)
                           | None \<Rightarrow> (None, appendTo (ino gzFile) stream w1)))))"

definition gzipArchiveAndDelete :: "Lib \<Rightarrow> string \<Rightarrow> OS \<Rightarrow> error option \<times> OS" where
  "gzipArchiveAndDelete lib fileName w =
     (case gzipArchive lib fileName w of
        (Some err, w1) \<Rightarrow> (Some err, w1)
      | (None, w1) \<Rightarrow>
          (case Remove fileName w1 of
             (Some err, w2) \<Rightarrow> (Some err, w2)
           | (None, w2) \<Rightarrow> (None, w2)))"

definition Archivers :: "Lib \<Rightarrow> string \<rightharpoonup> (string \<Rightarrow> OS \<Rightarrow> error option \<times> OS)" where
  "Archivers lib = [GzipSuffix \<mapsto> gzipArchiveAndDelete lib]"

section \<open>FsrollHook (fsrollhook.go)\<close>

datatype Level = PanicLevel | FatalLevel | ErrorLevel | WarnLevel | InfoLevel | DebugLevel

text \<open>
  A \<^verbatim>\<open>*time.Timer\<close> that exists is either waiting to fire after a duration or stopped;
  the hook's \<open>timer\<close> field is \<open>None\<close> while it is nil.
\<close>

datatype Timer = Armed Duration | Stopped

text \<open>
  The hook (its field \<open>file\<close> is written \<open>file'\<close>). Log entries are of an arbitrary
  type \<open>'e\<close>; the formatter turns one into bytes or fails. The queue and the mutex are
  not fields of the record: the methods that take the mutex are atomic steps, and the
  queue belongs to the running system below.
\<close>

record 'e FsrollHook =
  levels :: "Level list"
  formatter :: "'e \<Rightarrow> error + string"
  FileNamePattern :: string
  ConstantPath :: string
  file' :: "File option"
  timer :: "Timer option"

text \<open>\<open>now\<close> is what \<^verbatim>\<open>time.Now().Local()\<close> returns when the method reads the clock.\<close>

definition rolloverAfter :: "Lib \<Rightarrow> 'e FsrollHook \<Rightarrow> Time \<Rightarrow> Duration" where
  "rolloverAfter lib hook now =
     (let t = now;
          oldFileName = Format lib t (FileNamePattern hook);
          t1 = Add t Minute;
          newFileName = Format lib t1 (FileNamePattern hook)
      in if oldFileName \<noteq> newFileName
         then Sub (Date (Year t1) (Month t1) (Day t1) (Hour_of t1) (Minute_of t1) 0 0 (loc t1)) t
         else
     (let t1 = Add t Hour;
          newFileName = Format lib t1 (FileNamePattern hook)
      in if oldFileName \<noteq> newFileName
         then Sub (Date (Year t1) (Month t1) (Day t1) (Hour_of t1) 0 0 0 (loc t1)) t
         else
     (let t1 = AddDate t 0 0 1;
          newFileName = Format lib t1 (FileNamePattern hook)
      in if oldFileName \<noteq> newFileName
         then Sub (Date (Year t1) (Month t1) (Day t1) 0 0 0 0 (loc t1)) t
         else
     (let t1 = AddDate t 0 1 0;
          newFileName = Format lib t1 (FileNamePattern hook)
      in if oldFileName \<noteq> newFileName
         then Sub (Date (Year t1) (Month t1) 1 0 0 0 0 (loc t1)) t
         else
     (let t1 = AddDate t 1 0 0;
          newFileName = Format lib t1 (FileNamePattern hook)
      in if oldFileName \<noteq> newFileName
         then Sub (Date (Year t1) 1 1 0 0 0 0 (loc t1)) t
         else 0)))))"

text \<open>
  \<open>rolloverFile\<close> returns the old file name and the error, with the hook and the world
  as it leaves them.
\<close>

definition rolloverFile ::
  "Lib \<Rightarrow> Time \<Rightarrow> 'e FsrollHook \<Rightarrow> OS \<Rightarrow> (string \<times> error option) \<times> 'e FsrollHook \<times> OS" where
  "rolloverFile lib now hook w =
     (let oldFile = file' hook;
          hook1 = hook\<lparr>file' := None\<rparr>;
          (oldFileName, w1) =
            (case oldFile of
               None \<Rightarrow> ([], w)
             | Some f \<Rightarrow>
                 (Name f,
                  case Close f w of
                    Some err \<Rightarrow> Printf (LogClose (Name f) err) w
                  | None \<Rightarrow> w));
          newFileNameOrig = Format lib now (FileNamePattern hook);
          newFileNameOrig =
            (if ToLower (Ext newFileNameOrig) = GzipSuffix
             then TrimSuffix newFileNameOrig GzipSuffix
             else newFileNameOrig);
          dir = Dir newFileNameOrig
      in case MkdirAll dir w1 of
           (Some err, w2) \<Rightarrow> ((oldFileName, Some err), hook1, w2)
         | (None, w2) \<Rightarrow>
             (case OpenFile newFileNameOrig w2 of
                (Inl err, w3) \<Rightarrow> ((oldFileName, Some err), hook1, w3)
              | (Inr newFile, w3) \<Rightarrow> ((oldFileName, None), hook1\<lparr>file' := Some newFile\<rparr>, w3)))"

text \<open>
  \<open>resetTimer\<close> runs when the timer fires. It reads the clock twice (\<open>now1\<close> inside
  \<open>rolloverFile\<close>, \<open>now2\<close> inside \<open>rolloverAfter\<close>), and returns the name it hands to a new
  \<open>archiveOldFile\<close> goroutine, if any. \<^verbatim>\<open>hook.timer.Reset\<close> and \<^verbatim>\<open>hook.timer.Stop\<close> on
  a nil timer panic: the result is \<open>None\<close>.
\<close>

definition resetTimer ::
  "Lib \<Rightarrow> Time \<Rightarrow> Time \<Rightarrow> 'e FsrollHook \<Rightarrow> OS \<Rightarrow> ('e FsrollHook \<times> OS \<times> string option) option" where
  "resetTimer lib now1 now2 hook w =
     (case rolloverFile lib now1 hook w of
        ((oldFileName, err), hook1, w1) \<Rightarrow>
          (let w2 = (case err of Some e \<Rightarrow> Printf (LogCreate e) w1 | None \<Rightarrow> w1);
               d = rolloverAfter lib hook1 now2
           in case timer hook1 of
                None \<Rightarrow> None
              | Some _ \<Rightarrow>
                  Some (hook1\<lparr>timer := Some (if 0 < d then Armed d else Stopped)\<rparr>,
                        w2,
                        if oldFileName \<noteq> [] then Some oldFileName else None)))"

definition archiveOldFile :: "Lib \<Rightarrow> 'e FsrollHook \<Rightarrow> string \<Rightarrow> OS \<Rightarrow> OS" where
  "archiveOldFile lib hook fileName w =
     (case Archivers lib (ToLower (Ext (FileNamePattern hook))) of
        Some archive \<Rightarrow>
          (case archive fileName w of
             (Some err, w1) \<Rightarrow> Printf (LogArchive fileName err) w1
           | (None, w1) \<Rightarrow> w1)
      | None \<Rightarrow> w)"

text \<open>
  \<open>write\<close> (written \<open>write'\<close>) first brings the file back if its name has gone from the
  directory; that part either returns early with an error (\<open>Inl\<close>) or goes on with the
  hook, the file and the world it leaves.
\<close>

definition write' ::
  "'e FsrollHook \<Rightarrow> OS \<Rightarrow> 'e \<Rightarrow> error option \<times> 'e FsrollHook \<times> OS" where
  "write' hook w entry =
     (case file' hook of
        None \<Rightarrow> (None, hook, w)
      | Some f \<Rightarrow>
          (let fileName = Name f
           in case (case Stat fileName w of
                      None \<Rightarrow> Inr (hook, f, w)
                    | Some serr \<Rightarrow>
                        if IsNotExist serr
                        then (case MkdirAll (Dir fileName) w of
                                (Some err, w1) \<Rightarrow> Inl (err, hook, Printf (LogMkdir err) w1)
                              | (None, w1) \<Rightarrow>
                                  (case OpenFile fileName w1 of
                                     (Inl err, w2) \<Rightarrow> Inl (err, hook, Printf (LogCreate err) w2)
                                   | (Inr recreateFile, w2) \<Rightarrow>
                                       Inr (hook\<lparr>file' := Some recreateFile\<rparr>, recreateFile, w2)))
                        else Inr (hook, f, w)) of
                Inl (err, hook1, w1) \<Rightarrow> (Some err, hook1, w1)
              | Inr (hook1, f1, w1) \<Rightarrow>
                  (case formatter hook1 entry of
                     Inl err \<Rightarrow> (Some err, hook1, w1)
                   | Inr b \<Rightarrow>
                       (case Write f1 b w1 of
                          (Some err, w2) \<Rightarrow> (Some err, hook1, w2)
                        | (None, w2) \<Rightarrow> (None, hook1, w2)))))"

definition Levels :: "'e FsrollHook \<Rightarrow> Level list" where
  "Levels hook = levels hook"

text \<open>
  \<open>NewHook\<close> returns the hook, the error value and the world. The goroutine it starts
  (\<open>writeEntry\<close>) is part of the running system below.
\<close>

definition NewHook ::
  "Lib \<Rightarrow> Time \<Rightarrow> Time \<Rightarrow> Level list \<Rightarrow> ('e \<Rightarrow> error + string) \<Rightarrow> string \<Rightarrow> OS
     \<Rightarrow> 'e FsrollHook \<times> error option \<times> OS" where
  "NewHook lib now1 now2 lvls fmtr fileNamePattern w =
     (let hook = \<lparr>levels = lvls, formatter = fmtr, FileNamePattern = fileNamePattern,
                  ConstantPath = [], file' = None, timer = None\<rparr>
      in case rolloverFile lib now1 hook w of
           ((oldFileName, err), hook1, w1) \<Rightarrow>
             (let w2 = (case err of Some e \<Rightarrow> Printf (LogCreate e) w1 | None \<Rightarrow> w1);
                  d = rolloverAfter lib hook1 now2;
                  hook2 = (if 0 < d then hook1\<lparr>timer := Some (Armed d)\<rparr> else hook1)
              in (hook2, None, w2)))"

text \<open>
  \<open>Fire\<close> sends the entry on the hook's channel, which holds up to 1000 entries, and
  returns nil; the channel is the \<open>queue\<close> of the running system below.
\<close>

definition Fire :: "'e FsrollHook \<Rightarrow> 'e \<Rightarrow> error option" where
  "Fire hook entry = None"

definition queueCap :: nat where
  "queueCap = 1000"

text \<open>
  The running system: the hook, the world, the entries waiting in the channel, whether
  the \<open>writeEntry\<close> goroutine is still in its loop, and the files handed to
  \<open>archiveOldFile\<close> goroutines that have not run yet. Since \<open>write\<close> and \<open>rolloverFile\<close>
  hold the same mutex, a run is a sequence of events: a producer completes a \<open>Fire\<close>
  (while the channel is full the producer stays blocked and nothing happens), the
  writing goroutine receives the next entry and writes it, the timer fires, a pending
  archiver runs, or something outside the process changes the world.
\<close>

record 'e FsrollSys =
  fs_hook :: "'e FsrollHook"
  fs_world :: OS
  fs_queue :: "'e list"
  fs_writing :: bool
  fs_archiving :: "string list"

datatype 'e event =
    Fires 'e
  | Serve
  | TimerFires Time Time
  | ArchiverRuns
  | Outside "OS \<Rightarrow> OS"

text \<open>
  One pass of the loop in \<open>writeEntry\<close>, for the entry just received: write it; on an
  error, log it and return, which ends the goroutine.
\<close>

definition writeEntry :: "'e FsrollSys \<Rightarrow> 'e \<Rightarrow> 'e FsrollSys" where
  "writeEntry s entry =
     (case write' (fs_hook s) (fs_world s) entry of
        (Some err, hook1, w1) \<Rightarrow>
          s\<lparr>fs_hook := hook1, fs_world := Printf (LogWrite err) w1, fs_writing := False\<rparr>
      | (None, hook1, w1) \<Rightarrow> s\<lparr>fs_hook := hook1, fs_world := w1\<rparr>)"

definition step :: "Lib \<Rightarrow> 'e FsrollSys \<Rightarrow> 'e event \<Rightarrow> 'e FsrollSys" where
  "step lib s ev =
     (case ev of
        Fires entry \<Rightarrow>
          (if length (fs_queue s) < queueCap then s\<lparr>fs_queue := fs_queue s @ [entry]\<rparr> else s)
      | Serve \<Rightarrow>
          (if fs_writing s
           then (case fs_queue s of
                   [] \<Rightarrow> s
                 | entry # rest \<Rightarrow> writeEntry (s\<lparr>fs_queue := rest\<rparr>) entry)
           else s)
      | TimerFires now1 now2 \<Rightarrow>
          (case timer (fs_hook s) of
             Some (Armed d) \<Rightarrow>
               (case resetTimer lib now1 now2 (fs_hook s) (fs_world s) of
                  Some (hook1, w1, spawned) \<Rightarrow>
                    s\<lparr>fs_hook := hook1, fs_world := w1,
                      fs_archiving :=
                        fs_archiving s @ (case spawned of Some n \<Rightarrow> [n] | None \<Rightarrow> [])\<rparr>
                | None \<Rightarrow> s)
           | _ \<Rightarrow> s)
      | ArchiverRuns \<Rightarrow>
          (case fs_archiving s of
             [] \<Rightarrow> s
           | n # ns \<Rightarrow>
               s\<lparr>fs_world := archiveOldFile lib (fs_hook s) n (fs_world s),
                 fs_archiving := ns\<rparr>)
      | Outside f \<Rightarrow> s\<lparr>fs_world := f (fs_world s)\<rparr>)"

fun run :: "Lib \<Rightarrow> 'e FsrollSys \<Rightarrow> 'e event list \<Rightarrow> 'e FsrollSys" where
  "run lib s [] = s"
| "run lib s (ev # evs) = run lib (step lib s ev) evs"

text \<open>The system right after \<open>NewHook\<close>, which starts the writing goroutine.\<close>

definition start ::
  "Lib \<Rightarrow> Time \<Rightarrow> Time \<Rightarrow> Level list \<Rightarrow> ('e \<Rightarrow> error + string) \<Rightarrow> string \<Rightarrow> OS \<Rightarrow> 'e FsrollSys" where
  "start lib now1 now2 lvls fmtr fileNamePattern w =
     (case NewHook lib now1 now2 lvls fmtr fileNamePattern w of
        (hook1, err, w1) \<Rightarrow>
          \<lparr>fs_hook = hook1, fs_world = w1, fs_queue = [], fs_writing = True,
           fs_archiving = []\<rparr>)"

section \<open>TimeBasedRollingFileHook (rollingfile\_hook.go)\<close>

text \<open>
  The second hook has the same fields, with an identifier and without \<open>ConstantPath\<close>.
  Its fields and methods carry the prefix \<open>tb_\<close> here.
\<close>

record 'e TimeBasedRollingFileHook =
  tb_id :: string
  tb_levels :: "Level list"
  tb_formatter :: "'e \<Rightarrow> error + string"
  tb_fileNamePattern :: string
  tb_file :: "File option"
  tb_timer :: "Timer option"

definition tb_rolloverAfter :: "Lib \<Rightarrow> 'e TimeBasedRollingFileHook \<Rightarrow> Time \<Rightarrow> Duration" where
  "tb_rolloverAfter lib hook now =
     (let t = now;
          oldFileName = Format lib t (tb_fileNamePattern hook);
          t1 = Add t Minute;
          newFileName = Format lib t1 (tb_fileNamePattern hook)
      in if oldFileName \<noteq> newFileName
         then Sub (Date (Year t1) (Month t1) (Day t1) (Hour_of t1) (Minute_of t1) 0 0 (loc t1)) t
         else
     (let t1 = Add t Hour;
          newFileName = Format lib t1 (tb_fileNamePattern hook)
      in if oldFileName \<noteq> newFileName
         then Sub (Date (Year t1) (Month t1) (Day t1) (Hour_of t1) 0 0 0 (loc t1)) t
         else
     (let t1 = AddDate t 0 0 1;
          newFileName = Format lib t1 (tb_fileNamePattern hook)
      in if oldFileName \<noteq> newFileName
         then Sub (Date (Year t1) (Month t1) (Day t1) 0 0 0 0 (loc t1)) t
         else
     (let t1 = AddDate t 0 1 0;
          newFileName = Format lib t1 (tb_fileNamePattern hook)
      in if oldFileName \<noteq> newFileName
         then Sub (Date (Year t1) (Month t1) 1 0 0 0 0 (loc t1)) t
         else
     (let t1 = AddDate t 1 0 0;
          newFileName = Format lib t1 (tb_fileNamePattern hook)
      in if oldFileName \<noteq> newFileName
         then Sub (Date (Year t1) 1 1 0 0 0 0 (loc t1)) t
         else 0)))))"

definition tb_rolloverFile ::
  "Lib \<Rightarrow> Time \<Rightarrow> 'e TimeBasedRollingFileHook \<Rightarrow> OS
     \<Rightarrow> (string \<times> error option) \<times> 'e TimeBasedRollingFileHook \<times> OS" where
  "tb_rolloverFile lib now hook w =
     (let oldFile = tb_file hook;
          hook1 = hook\<lparr>tb_file := None\<rparr>;
          (oldFileName, w1) =
            (case oldFile of
               None \<Rightarrow> ([], w)
             | Some f \<Rightarrow>
                 (Name f,
                  case Close f w of
                    Some err \<Rightarrow> Printf (LogClose (Name f) err) w
                  | None \<Rightarrow> w));
          newFileName = Format lib now (tb_fileNamePattern hook);
          newFileName =
            (if ToLower (Ext newFileName) = GzipSuffix
             then TrimSuffix newFileName GzipSuffix
             else newFileName);
          dir = Dir newFileName
      in case MkdirAll dir w1 of
           (Some err, w2) \<Rightarrow> ((oldFileName, Some err), hook1, w2)
         | (None, w2) \<Rightarrow>
             (case OpenFile newFileName w2 of
                (Inl err, w3) \<Rightarrow> ((oldFileName, Some err), hook1, w3)
              | (Inr newFile, w3) \<Rightarrow>
                  ((oldFileName, None), hook1\<lparr>tb_file := Some newFile\<rparr>, w3)))"

definition tb_resetTimer ::
  "Lib \<Rightarrow> Time \<Rightarrow> Time \<Rightarrow> 'e TimeBasedRollingFileHook \<Rightarrow> OS
     \<Rightarrow> ('e TimeBasedRollingFileHook \<times> OS \<times> string option) option" where
  "tb_resetTimer lib now1 now2 hook w =
     (case tb_rolloverFile lib now1 hook w of
        ((oldFileName, err), hook1, w1) \<Rightarrow>
          (let w2 = (case err of Some e \<Rightarrow> Printf (LogCreate e) w1 | None \<Rightarrow> w1);
               d = tb_rolloverAfter lib hook1 now2
           in case tb_timer hook1 of
                None \<Rightarrow> None
              | Some _ \<Rightarrow>
                  Some (hook1\<lparr>tb_timer := Some (if 0 < d then Armed d else Stopped)\<rparr>,
                        w2,
                        if oldFileName \<noteq> [] then Some oldFileName else None)))"

definition tb_archiveOldFile :: "Lib \<Rightarrow> 'e TimeBasedRollingFileHook \<Rightarrow> string \<Rightarrow> OS \<Rightarrow> OS" where
  "tb_archiveOldFile lib hook fileName w =
     (case Archivers lib (ToLower (Ext (tb_fileNamePattern hook))) of
        Some archive \<Rightarrow>
          (case archive fileName w of
             (Some err, w1) \<Rightarrow> Printf (LogArchive fileName err) w1
           | (None, w1) \<Rightarrow> w1)
      | None \<Rightarrow> w)"

definition tb_write ::
  "'e TimeBasedRollingFileHook \<Rightarrow> OS \<Rightarrow> 'e \<Rightarrow> error option \<times> 'e TimeBasedRollingFileHook \<times> OS" where
  "tb_write hook w entry =
     (case tb_file hook of
        None \<Rightarrow> (None, hook, w)
      | Some f \<Rightarrow>
          (case tb_formatter hook entry of
             Inl err \<Rightarrow> (Some err, hook, w)
           | Inr b \<Rightarrow>
               (case Write f b w of
                  (Some err, w1) \<Rightarrow> (Some err, hook, w1)
                | (None, w1) \<Rightarrow> (None, hook, w1))))"

definition NewTimeBasedRollingFileHook ::
  "Lib \<Rightarrow> Time \<Rightarrow> Time \<Rightarrow> string \<Rightarrow> Level list \<Rightarrow> ('e \<Rightarrow> error + string) \<Rightarrow> string \<Rightarrow> OS
     \<Rightarrow> 'e TimeBasedRollingFileHook \<times> error option \<times> OS" where
  "NewTimeBasedRollingFileHook lib now1 now2 ident lvls fmtr fileNamePattern w =
     (let hook = \<lparr>tb_id = ident, tb_levels = lvls, tb_formatter = fmtr,
                  tb_fileNamePattern = fileNamePattern, tb_file = None, tb_timer = None\<rparr>
      in case tb_rolloverFile lib now1 hook w of
           ((oldFileName, err), hook1, w1) \<Rightarrow>
             (let w2 = (case err of Some e \<Rightarrow> Printf (LogCreate e) w1 | None \<Rightarrow> w1);
                  d = tb_rolloverAfter lib hook1 now2;
                  hook2 = (if 0 < d then hook1\<lparr>tb_timer := Some (Armed d)\<rparr> else hook1)
              in (hook2, None, w2)))"

definition tb_Fire :: "'e TimeBasedRollingFileHook \<Rightarrow> 'e \<Rightarrow> error option" where
  "tb_Fire hook entry = None"

record 'e TimeBasedSys =
  tb_hook :: "'e TimeBasedRollingFileHook"
  tb_world :: OS
  tb_queue :: "'e list"
  tb_writing :: bool
  tb_archiving :: "string list"

text \<open>
  One pass of the loop in this hook's \<open>writeEntry\<close>: write the entry; on an error, log it.
  There is no return in the loop, so the goroutine goes on to the next entry.
\<close>

definition tb_writeEntry :: "'e TimeBasedSys \<Rightarrow> 'e \<Rightarrow> 'e TimeBasedSys" where
  "tb_writeEntry s entry =
     (case tb_write (tb_hook s) (tb_world s) entry of
        (Some err, hook1, w1) \<Rightarrow> s\<lparr>tb_hook := hook1, tb_world := Printf (LogWrite err) w1\<rparr>
      | (None, hook1, w1) \<Rightarrow> s\<lparr>tb_hook := hook1, tb_world := w1\<rparr>)"

definition tb_step :: "Lib \<Rightarrow> 'e TimeBasedSys \<Rightarrow> 'e event \<Rightarrow> 'e TimeBasedSys" where
  "tb_step lib s ev =
     (case ev of
        Fires entry \<Rightarrow>
          (if length (tb_queue s) < queueCap then s\<lparr>tb_queue := tb_queue s @ [entry]\<rparr> else s)
      | Serve \<Rightarrow>
          (if tb_writing s
           then (case tb_queue s of
                   [] \<Rightarrow> s
                 | entry # rest \<Rightarrow> tb_writeEntry (s\<lparr>tb_queue := rest\<rparr>) entry)
           else s)
      | TimerFires now1 now2 \<Rightarrow>
          (case tb_timer (tb_hook s) of
             Some (Armed d) \<Rightarrow>
               (case tb_resetTimer lib now1 now2 (tb_hook s) (tb_world s) of
                  Some (hook1, w1, spawned) \<Rightarrow>
                    s\<lparr>tb_hook := hook1, tb_world := w1,
                      tb_archiving :=
                        tb_archiving s @ (case spawned of Some n \<Rightarrow> [n] | None \<Rightarrow> [])\<rparr>
                | None \<Rightarrow> s)
           | _ \<Rightarrow> s)
      | ArchiverRuns \<Rightarrow>
          (case tb_archiving s of
             [] \<Rightarrow> s
           | n # ns \<Rightarrow>
               s\<lparr>tb_world := tb_archiveOldFile lib (tb_hook s) n (tb_world s),
                 tb_archiving := ns\<rparr>)
      | Outside f \<Rightarrow> s\<lparr>tb_world := f (tb_world s)\<rparr>)"

fun tb_run :: "Lib \<Rightarrow> 'e TimeBasedSys \<Rightarrow> 'e event list \<Rightarrow> 'e TimeBasedSys" where
  "tb_run lib s [] = s"
| "tb_run lib s (ev # evs) = tb_run lib (tb_step lib s ev) evs"

definition tb_start ::
  "Lib \<Rightarrow> Time \<Rightarrow> Time \<Rightarrow> string \<Rightarrow> Level list \<Rightarrow> ('e \<Rightarrow> error + string) \<Rightarrow> string \<Rightarrow> OS
     \<Rightarrow> 'e TimeBasedSys" where
  "tb_start lib now1 now2 ident lvls fmtr fileNamePattern w =
     (case NewTimeBasedRollingFileHook lib now1 now2 ident lvls fmtr fileNamePattern w of
        (hook1, err, w1) \<Rightarrow>
          \<lparr>tb_hook = hook1, tb_world = w1, tb_queue = [], tb_writing = True,
           tb_archiving = []\<rparr>)"

section \<open>Time.Format\<close>

text \<open>
  A concrete \<^verbatim>\<open>Time.Format\<close>, for evaluating the hooks on given patterns. \<open>stdAt\<close> is
  Go's \<^verbatim>\<open>nextStdChunk\<close> at one position of the layout: it recognises the layout element
  that starts there, if any, and says how many characters it takes and which literal
  text goes before it (only \<open>_2006\<close> has one, the underscore). \<open>goFormat\<close> walks over the
  layout, copies what is not a layout element and renders each element.
\<close>

datatype std =
    stdLongMonth | stdMonth | stdNumMonth | stdZeroMonth
  | stdLongWeekDay | stdWeekDay
  | stdDay | stdUnderDay | stdZeroDay | stdUnderYearDay | stdZeroYearDay
  | stdHour | stdHour12 | stdZeroHour12
  | stdMinute | stdZeroMinute | stdSecond | stdZeroSecond
  | stdLongYear | stdYear
  | stdPM | stdpm
  | stdTZ
  | stdISO8601TZ | stdISO8601SecondsTZ | stdISO8601ShortTZ
  | stdISO8601ColonTZ | stdISO8601ColonSecondsTZ
  | stdNumTZ | stdNumSecondsTz | stdNumShortTZ | stdNumColonTZ | stdNumColonSecondsTZ
  | stdFracSecond0 nat char
  | stdFracSecond9 nat char

definition hasPrefix :: "string \<Rightarrow> string \<Rightarrow> bool" where
  "hasPrefix p s = (take (length p) s = p)"

definition isDigitChar :: "char \<Rightarrow> bool" where
  "isDigitChar c = (c \<in> set ''0123456789'')"

definition startsWithLowerCase :: "string \<Rightarrow> bool" where
  "startsWithLowerCase s =
     (case s of [] \<Rightarrow> False | c # cs \<Rightarrow> c \<in> set ''abcdefghijklmnopqrstuvwxyz'')"

definition stdAt :: "string \<Rightarrow> (string \<times> std \<times> nat) option" where
  "stdAt s =
     (case s of
        [] \<Rightarrow> None
      | c # cs \<Rightarrow>
          if c = CHR ''J'' then
            (if hasPrefix ''January'' s then Some ([], stdLongMonth, 7)
             else if hasPrefix ''Jan'' s \<and> \<not> startsWithLowerCase (drop 3 s)
               then Some ([], stdMonth, 3)
             else None)
          else if c = CHR ''M'' then
            (if hasPrefix ''Monday'' s then Some ([], stdLongWeekDay, 6)
             else if hasPrefix ''Mon'' s \<and> \<not> startsWithLowerCase (drop 3 s)
               then Some ([], stdWeekDay, 3)
             else if hasPrefix ''MST'' s then Some ([], stdTZ, 3)
             else None)
          else if c = CHR ''0'' then
            (if hasPrefix ''01'' s then Some ([], stdZeroMonth, 2)
             else if hasPrefix ''02'' s then Some ([], stdZeroDay, 2)
             else if hasPrefix ''03'' s then Some ([], stdZeroHour12, 2)
             else if hasPrefix ''04'' s then Some ([], stdZeroMinute, 2)
             else if hasPrefix ''05'' s then Some ([], stdZeroSecond, 2)
             else if hasPrefix ''06'' s then Some ([], stdYear, 2)
             else if hasPrefix ''002'' s then Some ([], stdZeroYearDay, 3)
             else None)
          else if c = CHR ''1'' then
            (if hasPrefix ''15'' s then Some ([], stdHour, 2)
             else Some ([], stdNumMonth, 1))
          else if c = CHR ''2'' then
            (if hasPrefix ''2006'' s then Some ([], stdLongYear, 4)
             else Some ([], stdDay, 1))
          else if c = CHR ''_'' then
            (if hasPrefix ''_2006'' s then Some (''_'', stdLongYear, 5)
             else if hasPrefix ''_2'' s then Some ([], stdUnderDay, 2)
             else if hasPrefix ''__2'' s then Some ([], stdUnderYearDay, 3)
             else None)
          else if c = CHR ''3'' then Some ([], stdHour12, 1)
          else if c = CHR ''4'' then Some ([], stdMinute, 1)
          else if c = CHR ''5'' then Some ([], stdSecond, 1)
          else if c = CHR ''P'' then
            (if hasPrefix ''PM'' s then Some ([], stdPM, 2) else None)
          else if c = CHR ''p'' then
            (if hasPrefix ''pm'' s then Some ([], stdpm, 2) else None)
          else if c = CHR ''-'' then
            (if hasPrefix ''-070000'' s then Some ([], stdNumSecondsTz, 7)
             else if hasPrefix ''-07:00:00'' s then Some ([], stdNumColonSecondsTZ, 9)
             else if hasPrefix ''-0700'' s then Some ([], stdNumTZ, 5)
             else if hasPrefix ''-07:00'' s then Some ([], stdNumColonTZ, 6)
             else if hasPrefix ''-07'' s then Some ([], stdNumShortTZ, 3)
             else None)
          else if c = CHR ''Z'' then
            (if hasPrefix ''Z070000'' s then Some ([], stdISO8601SecondsTZ, 7)
             else if hasPrefix ''Z07:00:00'' s then Some ([], stdISO8601ColonSecondsTZ, 9)
             else if hasPrefix ''Z0700'' s then Some ([], stdISO8601TZ, 5)
             else if hasPrefix ''Z07:00'' s then Some ([], stdISO8601ColonTZ, 6)
             else if hasPrefix ''Z07'' s then Some ([], stdISO8601ShortTZ, 3)
             else None)
          else if c = CHR ''.'' \<or> c = CHR '','' then
            (case cs of
               [] \<Rightarrow> None
             | ch # _ \<Rightarrow>
                 if ch = CHR ''0'' \<or> ch = CHR ''9'' then
                   (let n = length (takeWhile (\<lambda>x. x = ch) cs);
                        after = drop n cs
                    in if after \<noteq> [] \<and> isDigitChar (hd after) then None
                       else if ch = CHR ''0'' then Some ([], stdFracSecond0 n c, n + 1)
                       else Some ([], stdFracSecond9 n c, n + 1))
                 else None)
          else None)"

definition digitChar :: "nat \<Rightarrow> char" where
  "digitChar d = ''0123456789'' ! (d mod 10)"

fun digits :: "nat \<Rightarrow> string" where
  "digits n = (if n < 10 then [digitChar n] else digits (n div 10) @ [digitChar (n mod 10)])"

text \<open>\<^verbatim>\<open>appendInt\<close>: the decimal form, padded with zeros to the width, after the sign.\<close>

definition appendInt :: "int \<Rightarrow> nat \<Rightarrow> string" where
  "appendInt x width =
     (let ds = digits (nat \<bar>x\<bar>)
      in (if x < 0 then ''-'' else []) @ replicate (width - length ds) CHR ''0'' @ ds)"

definition monthName :: "int \<Rightarrow> string" where
  "monthName m =
     [''January'', ''February'', ''March'', ''April'', ''May'', ''June'', ''July'',
      ''August'', ''September'', ''October'', ''November'', ''December''] ! nat (m - 1)"

definition weekdayName :: "int \<Rightarrow> string" where
  "weekdayName d =
     [''Sunday'', ''Monday'', ''Tuesday'', ''Wednesday'', ''Thursday'', ''Friday'',
      ''Saturday''] ! nat d"

text \<open>
  \<^verbatim>\<open>appendNano\<close>: the separator and the first \<open>n\<close> of the nine digits of the nanosecond;
  for the \<open>9\<close> form trailing zeros are removed, and nothing is printed if none remain.
\<close>

definition appendNano :: "int \<Rightarrow> nat \<Rightarrow> char \<Rightarrow> bool \<Rightarrow> string" where
  "appendNano nanosec n sep trim =
     (if trim \<and> (n = 0 \<or> nanosec = 0) then []
      else (let ds = take n (appendInt nanosec 9);
                ds = (if trim then rev (dropWhile (\<lambda>c. c = CHR ''0'') (rev ds)) else ds)
            in if trim \<and> ds = [] then [] else sep # ds))"

text \<open>
  The numeric zone forms. Go divides with truncation towards zero: an offset of less
  than a minute west of UTC prints a plus sign, and its seconds keep their minus sign.
\<close>

definition appendZone :: "int \<Rightarrow> bool \<Rightarrow> bool \<Rightarrow> bool \<Rightarrow> bool \<Rightarrow> string" where
  "appendZone offset isoZ colon short seconds =
     (if offset = 0 \<and> isoZ then ''Z''
      else (let west = (offset \<le> - 60);
                absoffset = (if west then - offset else offset);
                zone = \<bar>offset\<bar> div 60
            in (if west then ''-'' else ''+'')
               @ appendInt (zone div 60) 2
               @ (if colon then '':'' else [])
               @ (if short then [] else appendInt (zone mod 60) 2)
               @ (if seconds
                  then (if colon then '':'' else [])
                       @ appendInt (if absoffset < 0 then - ((- absoffset) mod 60)
                                    else absoffset mod 60) 2
                  else [])))"

definition renderStd :: "Time \<Rightarrow> std \<Rightarrow> string" where
  "renderStd t e =
     (let r = wall t; name = fst (zoneAt t); offset = snd (zoneAt t);
          hr = (if wallHour r mod 12 = 0 then 12 else wallHour r mod 12)
      in case e of
           stdYear \<Rightarrow> appendInt (\<bar>wallYear r\<bar> mod 100) 2
         | stdLongYear \<Rightarrow> appendInt (wallYear r) 4
         | stdMonth \<Rightarrow> take 3 (monthName (wallMonth r))
         | stdLongMonth \<Rightarrow> monthName (wallMonth r)
         | stdNumMonth \<Rightarrow> appendInt (wallMonth r) 0
         | stdZeroMonth \<Rightarrow> appendInt (wallMonth r) 2
         | stdWeekDay \<Rightarrow> take 3 (weekdayName (wallWeekday r))
         | stdLongWeekDay \<Rightarrow> weekdayName (wallWeekday r)
         | stdDay \<Rightarrow> appendInt (wallDay r) 0
         | stdUnderDay \<Rightarrow> (if wallDay r < 10 then '' '' else []) @ appendInt (wallDay r) 0
         | stdZeroDay \<Rightarrow> appendInt (wallDay r) 2
         | stdUnderYearDay \<Rightarrow>
             (if wallYearDay r < 100 then '' '' else [])
             @ (if wallYearDay r < 10 then '' '' else [])
             @ appendInt (wallYearDay r) 0
         | stdZeroYearDay \<Rightarrow> appendInt (wallYearDay r) 3
         | stdHour \<Rightarrow> appendInt (wallHour r) 2
         | stdHour12 \<Rightarrow> appendInt hr 0
         | stdZeroHour12 \<Rightarrow> appendInt hr 2
         | stdMinute \<Rightarrow> appendInt (wallMinute r) 0
         | stdZeroMinute \<Rightarrow> appendInt (wallMinute r) 2
         | stdSecond \<Rightarrow> appendInt (wallSecond r) 0
         | stdZeroSecond \<Rightarrow> appendInt (wallSecond r) 2
         | stdPM \<Rightarrow> (if 12 \<le> wallHour r then ''PM'' else ''AM'')
         | stdpm \<Rightarrow> (if 12 \<le> wallHour r then ''pm'' else ''am'')
         | stdTZ \<Rightarrow> (if name \<noteq> [] then name else appendZone offset False False False False)
         | stdISO8601TZ \<Rightarrow> appendZone offset True False False False
         | stdISO8601SecondsTZ \<Rightarrow> appendZone offset True False False True
         | stdISO8601ShortTZ \<Rightarrow> appendZone offset True False True False
         | stdISO8601ColonTZ \<Rightarrow> appendZone offset True True False False
         | stdISO8601ColonSecondsTZ \<Rightarrow> appendZone offset True True False True
         | stdNumTZ \<Rightarrow> appendZone offset False False False False
         | stdNumSecondsTz \<Rightarrow> appendZone offset False False False True
         | stdNumShortTZ \<Rightarrow> appendZone offset False False True False
         | stdNumColonTZ \<Rightarrow> appendZone offset False True False False
         | stdNumColonSecondsTZ \<Rightarrow> appendZone offset False True False True
         | stdFracSecond0 n sep \<Rightarrow> appendNano (wallNanosecond r) n sep False
         | stdFracSecond9 n sep \<Rightarrow> appendNano (wallNanosecond r) n sep True)"

fun goFormat :: "Time \<Rightarrow> string \<Rightarrow> string" where
  "goFormat t [] = []"
| "goFormat t (c # cs) =
     (case stdAt (c # cs) of
        None \<Rightarrow> c # goFormat t cs
      | Some (lit, e, n) \<Rightarrow> lit @ renderStd t e @ goFormat t (drop (n - 1) cs))"

section \<open>Concrete libraries, locations, worlds and hooks\<close>

text \<open>
  A library with the renderer above. Its compressor is a stand-in that puts a two-byte
  mark in front of the data; the theorems below hold for every compressor.
\<close>

definition goLib :: Lib where
  "goLib = \<lparr>Format = goFormat, Gzip = (\<lambda>b. ''GZ'' @ b)\<rparr>"

text \<open>
  America/New\_York with its transitions of 2015 and 2016: daylight saving time from
  2015-03-08 07:00:00 UTC to 2015-11-01 06:00:00 UTC and from 2016-03-13 07:00:00 UTC to
  2016-11-06 06:00:00 UTC.
\<close>

definition newYork :: Location where
  "newYork =
     \<lparr>zoneName = ''EST'', zoneOffset = - 18000,
      zoneTrans = [(1425798000, ''EDT'', - 14400), (1446357600, ''EST'', - 18000),
                   (1457852400, ''EDT'', - 14400), (1478412000, ''EST'', - 18000)]\<rparr>"

text \<open>
  The instant 2015-11-01 01:59:30 EDT in New York, half a minute before the clocks go
  back from 02:00 to 01:00, and the minute pattern of the repository's tests.
\<close>

definition nyBeforeFallBack :: Time where
  "nyBeforeFallBack = \<lparr>unixNano = 1446357570 * Second, loc = newYork\<rparr>"

definition minutePattern :: string where
  "minutePattern = ''/tmp/tbrfh/2006/01/02/15/minute.04.log''"

text \<open>A world with no files in which no system call fails.\<close>

definition emptyOS :: OS where
  "emptyOS =
     \<lparr>names = Map.empty, content = (\<lambda>i. []), nextIno = 0, logged = [],
      mkdirFault = (\<lambda>d. None), openFault = (\<lambda>n. None), statFault = (\<lambda>n. None),
      closeFault = (\<lambda>f. None), writeFault = (\<lambda>f b. None), removeFault = (\<lambda>n. None),
      copyFault = (\<lambda>n. None), flushFault = (\<lambda>n. None)\<rparr>"

text \<open>
  Hooks over entries that are plain strings, as \<open>NewHook\<close> and
  \<open>NewTimeBasedRollingFileHook\<close> fill them in before the first rollover, with a formatter
  that emits the entry followed by a newline and fails on the empty entry.
\<close>

definition lineFormatter :: "string \<Rightarrow> error + string" where
  "lineFormatter entry = (if entry = [] then Inl ErrFormat else Inr (entry @ [CHR 0x0A]))"

definition bareHook :: "string \<Rightarrow> string FsrollHook" where
  "bareHook fileNamePattern =
     \<lparr>levels = [InfoLevel, WarnLevel, ErrorLevel], formatter = lineFormatter,
      FileNamePattern = fileNamePattern, ConstantPath = [], file' = None, timer = None\<rparr>"

definition tb_bareHook :: "string \<Rightarrow> string TimeBasedRollingFileHook" where
  "tb_bareHook fileNamePattern =
     \<lparr>tb_id = ''tbrfh'', tb_levels = [InfoLevel, WarnLevel, ErrorLevel],
      tb_formatter = lineFormatter, tb_fileNamePattern = fileNamePattern,
      tb_file = None, tb_timer = None\<rparr>"

text \<open>
  A world with a closed log file and a \<open>.gz\<close> file left beside it by an earlier run, and
  the same world in which the \<open>.gz\<close> file cannot be opened.
\<close>

definition leftoverGzOS :: OS where
  "leftoverGzOS =
     emptyOS\<lparr>names := [''/tmp/a.log'' \<mapsto> 0, ''/tmp/a.log.gz'' \<mapsto> 1],
             content := (\<lambda>i. if i = 0 then ''data'' else if i = 1 then ''OLD'' else []),
             nextIno := 2\<rparr>"

definition lockedGzOS :: OS where
  "lockedGzOS =
     leftoverGzOS\<lparr>openFault :=
       (\<lambda>n. if n = ''/tmp/a.log.gz'' then Some ErrPermission else None)\<rparr>"

text \<open>A world in which no directory can be created.\<close>

definition readOnlyOS :: OS where
  "readOnlyOS = emptyOS\<lparr>mkdirFault := (\<lambda>d. Some ErrPermission)\<rparr>"

text \<open>A world in which writing the line \<open>bad\<close> fails and every other write succeeds.\<close>

definition flakyOS :: OS where
  "flakyOS =
     emptyOS\<lparr>writeFault := (\<lambda>f b. if b = ''bad'' @ [CHR 0x0A] then Some (0, ErrIO) else None)\<rparr>"


section \<open>The probes of the rollover scheduler\<close>

text \<open>
  The five granularities \<open>rolloverAfter\<close> probes, in its order, and the instant each probe
  looks at.
\<close>

datatype granularity = PerMinute | PerHour | PerDay | PerMonth | PerYear

definition granularities :: "granularity list" where
  "granularities = [PerMinute, PerHour, PerDay, PerMonth, PerYear]"

fun advance :: "granularity \<Rightarrow> Time \<Rightarrow> Time" where
  "advance PerMinute t = Add t Minute"
| "advance PerHour t = Add t Hour"
| "advance PerDay t = AddDate t 0 0 1"
| "advance PerMonth t = AddDate t 0 1 0"
| "advance PerYear t = AddDate t 1 0 0"

text \<open>The first granularity, in probing order, at which the rendered name changes.\<close>

definition firstChanged :: "Lib \<Rightarrow> string \<Rightarrow> Time \<Rightarrow> granularity option" where
  "firstChanged lib pattern t =
     find (\<lambda>g. Format lib t pattern \<noteq> Format lib (advance g t) pattern) granularities"

text \<open>Events by kind.\<close>

definition isServe :: "'e event \<Rightarrow> bool" where
  "isServe ev = (case ev of Serve \<Rightarrow> True | _ \<Rightarrow> False)"

definition isTimerFires :: "'e event \<Rightarrow> bool" where
  "isTimerFires ev = (case ev of TimerFires now1 now2 \<Rightarrow> True | _ \<Rightarrow> False)"

text \<open>
  The name \<open>rolloverFile\<close> opens: the pattern rendered at \<open>now\<close>, without a \<open>.gz\<close> that
  \<^verbatim>\<open>strings.TrimSuffix\<close> finds at its end when the lower-cased extension is \<open>.gz\<close>.
\<close>

definition rolloverName :: "Lib \<Rightarrow> Time \<Rightarrow> string \<Rightarrow> string" where
  "rolloverName lib now pattern =
     (let n = Format lib now pattern
      in if ToLower (Ext n) = GzipSuffix then TrimSuffix n GzipSuffix else n)"

text \<open>What \<open>rolloverFile\<close> does first: forget the old handle, close it, log a failing close.\<close>

definition closedOld :: "File option \<Rightarrow> OS \<Rightarrow> string \<times> OS" where
  "closedOld oldFile w =
     (case oldFile of
        None \<Rightarrow> ([], w)
      | Some f \<Rightarrow>
          (Name f, case Close f w of Some err \<Rightarrow> Printf (LogClose (Name f) err) w | None \<Rightarrow> w))"

section \<open>What the methods leave unchanged\<close>

lemma rolloverFile_keeps:
  assumes "rolloverFile lib now h w = ((n, e), h', w')"
  shows "FileNamePattern h' = FileNamePattern h" "timer h' = timer h"
    "formatter h' = formatter h" "levels h' = levels h"
  using assms
  by (auto simp: rolloverFile_def Let_def MkdirAll_def split: prod.splits option.splits sum.splits)

lemma tb_rolloverFile_keeps:
  assumes "tb_rolloverFile lib now h w = ((n, e), h', w')"
  shows "tb_fileNamePattern h' = tb_fileNamePattern h" "tb_timer h' = tb_timer h"
    "tb_formatter h' = tb_formatter h" "tb_levels h' = tb_levels h" "tb_id h' = tb_id h"
  using assms
  by (auto simp: tb_rolloverFile_def Let_def MkdirAll_def split: prod.splits option.splits sum.splits)

lemma rolloverAfter_pattern:
  "FileNamePattern h' = FileNamePattern h \<Longrightarrow> rolloverAfter lib h' t = rolloverAfter lib h t"
  by (simp add: rolloverAfter_def Let_def)

lemma tb_rolloverAfter_pattern:
  "tb_fileNamePattern h' = tb_fileNamePattern h \<Longrightarrow>
   tb_rolloverAfter lib h' t = tb_rolloverAfter lib h t"
  by (simp add: tb_rolloverAfter_def Let_def)

lemma tb_rolloverAfter_as_fs:
  "FileNamePattern h = tb_fileNamePattern k \<Longrightarrow> tb_rolloverAfter lib k t = rolloverAfter lib h t"
  by (simp add: tb_rolloverAfter_def rolloverAfter_def Let_def)

lemma resetTimer_timer:
  assumes "timer h \<noteq> None"
  shows "\<exists>h' w' sp. resetTimer lib now1 now2 h w = Some (h', w', sp) \<and>
           timer h' = Some (if 0 < rolloverAfter lib h now2 then Armed (rolloverAfter lib h now2)
                            else Stopped)"
proof -
  obtain n e h1 w1 where r: "rolloverFile lib now1 h w = ((n, e), h1, w1)"
    by (metis prod.exhaust)
  have "rolloverAfter lib h1 now2 = rolloverAfter lib h now2"
    using rolloverFile_keeps(1) [OF r] by (rule rolloverAfter_pattern)
  moreover obtain x where "timer h1 = Some x"
    using rolloverFile_keeps(2) [OF r] assms by auto
  ultimately show ?thesis
    by (simp add: resetTimer_def r Let_def)
qed

lemma NewHook_timer:
  fixes fmtr :: "'e \<Rightarrow> error + string" and bare :: "'e FsrollHook"
  assumes "FileNamePattern bare = p"
  shows "timer (fst (NewHook lib now1 now2 lvls fmtr p w)) =
     (if 0 < rolloverAfter lib bare now2 then Some (Armed (rolloverAfter lib bare now2))
      else None)"
proof -
  define h0 where "h0 = \<lparr>levels = lvls, formatter = fmtr, FileNamePattern = p,
                  ConstantPath = [], file' = None, timer = None\<rparr>"
  obtain n e h1 w1 where r: "rolloverFile lib now1 h0 w = ((n, e), h1, w1)"
    by (metis prod.exhaust)
  have "FileNamePattern h1 = p" "timer h1 = None"
    using rolloverFile_keeps(1,2) [OF r] by (simp_all add: h0_def)
  then have "rolloverAfter lib h1 now2 = rolloverAfter lib bare now2"
    using assms by (intro rolloverAfter_pattern) simp
  then show ?thesis using \<open>timer h1 = None\<close>
    by (simp add: NewHook_def Let_def r [unfolded h0_def])
qed

lemma write'_keeps:
  assumes "write' h w e = (r, h', w')"
  shows "timer h' = timer h" "FileNamePattern h' = FileNamePattern h"
    "formatter h' = formatter h"
  using assms
  by (auto simp: write'_def Let_def split: option.splits sum.splits prod.splits if_splits)

lemma step_idle_timer:
  assumes "\<And>d. timer (fs_hook s) \<noteq> Some (Armed d)"
  shows "timer (fs_hook (step lib s ev)) = timer (fs_hook s)"
proof (cases ev)
  case (Fires e)
  then show ?thesis by (simp add: step_def)
next
  case Serve
  show ?thesis
  proof (cases "fs_writing s \<and> fs_queue s \<noteq> []")
    case True
    then obtain e q where q: "fs_queue s = e # q" by (cases "fs_queue s") auto
    obtain r h' w' where w: "write' (fs_hook s) (fs_world s) e = (r, h', w')"
      by (metis prod.exhaust)
    show ?thesis
      using write'_keeps(1) [OF w] Serve True q
      by (cases r) (simp_all add: step_def writeEntry_def w)
  next
    case False
    then show ?thesis using Serve by (auto simp: step_def split: list.splits)
  qed
next
  case (TimerFires a b)
  then show ?thesis using assms
    by (simp add: step_def split: option.splits Timer.splits)
next
  case ArchiverRuns
  then show ?thesis by (simp add: step_def split: list.splits)
next
  case (Outside f)
  then show ?thesis by (simp add: step_def)
qed

lemma run_idle_timer:
  assumes "\<And>d. timer (fs_hook s) \<noteq> Some (Armed d)"
  shows "timer (fs_hook (run lib s evs)) = timer (fs_hook s)"
  using assms
proof (induction evs arbitrary: s)
  case Nil
  show ?case by simp
next
  case (Cons ev evs)
  have k: "timer (fs_hook (step lib s ev)) = timer (fs_hook s)"
    using Cons.prems by (rule step_idle_timer)
  then have "timer (fs_hook (run lib (step lib s ev) evs)) = timer (fs_hook (step lib s ev))"
    using Cons.prems by (intro Cons.IH) simp
  then show ?case using k by simp
qed

lemma rolloverAfter_unchanging:
  assumes "\<forall>g. Format lib t (FileNamePattern h) = Format lib (advance g t) (FileNamePattern h)"
  shows "rolloverAfter lib h t = 0"
  using assms [rule_format, of PerMinute] assms [rule_format, of PerHour]
    assms [rule_format, of PerDay] assms [rule_format, of PerMonth]
    assms [rule_format, of PerYear]
  by (simp add: rolloverAfter_def Let_def)

section \<open>The rollover scheduler\<close>

lemma goFormat_app_log: "goFormat t ''/tmp/tbrfh/app.log'' = ''/tmp/tbrfh/app.log''"
  by (simp add: stdAt_def hasPrefix_def)

lemma ny_names:
  "Format goLib nyBeforeFallBack minutePattern = ''/tmp/tbrfh/2015/11/01/01/minute.59.log''"
  "Format goLib (Add nyBeforeFallBack Minute) minutePattern
     = ''/tmp/tbrfh/2015/11/01/01/minute.00.log''"
  by code_simp+

lemma ny_rolloverAfter:
  "rolloverAfter goLib (bareHook minutePattern) nyBeforeFallBack = - (59 * Minute + 30 * Second)"
  by code_simp


lemma ny_landing:
  "goFormat nyBeforeFallBack ''2006-01-02 15:04:05 MST'' = ''2015-11-01 01:59:30 EDT''"
  "goFormat (Add nyBeforeFallBack (- (59 * Minute + 30 * Second))) ''2006-01-02 15:04:05 MST''
     = ''2015-11-01 01:00:00 EDT''"
  "goFormat (Add nyBeforeFallBack (30 * Second)) ''2006-01-02 15:04:05 MST''
     = ''2015-11-01 01:00:00 EST''"
  by code_simp+

lemma january_thirtieth:
  "rolloverAfter goLib (bareHook ''/tmp/tbrfh/2006-01.log'') (Date 2015 1 30 10 0 0 0 UTC)
     = 710 * Hour"
  "goFormat (Add (Date 2015 1 30 10 0 0 0 UTC) (710 * Hour)) ''2006-01-02 15:04:05 MST''
     = ''2015-03-01 00:00:00 UTC''"
  by code_simp+

text \<open>
  C1. \<open>rolloverAfter\<close> probes the granularities minute, hour, day, month, year in this
  order and, at the first probe that renders a different name, rebuilds the start of the
  probe instant's unit with \<^verbatim>\<open>time.Date\<close> from the probe's calendar fields and location.
  The duration it returns does not always end at the start of that unit. In New York on
  2015-11-01 at 01:59:30 EDT the minute probe is 01:00:30 EST and the name changes
  (minute 59 to minute 00); \<^verbatim>\<open>time.Date\<close> resolves the reading 01:00:00, which that
  night's clocks show twice, to 01:00:00 EDT, an hour before the start of the probe's
  minute, 01:00:00 EST. Both hooks return minus 59 minutes 30 seconds, where the start
  of the next minute is 30 seconds away.

  The unit meant is the one that holds the probe instant, which need not begin where the
  name changes next: on 2015-01-30 at 10:00 UTC with a monthly pattern the month probe is
  2015-03-02, and the duration, 710 hours, ends on 2015-03-01 at 00:00, a month after
  the name has changed.
\<close>

theorem rolloverAfter_negative_when_clocks_go_back:
  "Format goLib nyBeforeFallBack minutePattern = ''/tmp/tbrfh/2015/11/01/01/minute.59.log''
   \<and> Format goLib (advance PerMinute nyBeforeFallBack) minutePattern
        = ''/tmp/tbrfh/2015/11/01/01/minute.00.log''
   \<and> rolloverAfter goLib (bareHook minutePattern) nyBeforeFallBack
        = - (59 * Minute + 30 * Second)
   \<and> tb_rolloverAfter goLib (tb_bareHook minutePattern) nyBeforeFallBack
        = - (59 * Minute + 30 * Second)
   \<and> unixNano (Add nyBeforeFallBack
          (rolloverAfter goLib (bareHook minutePattern) nyBeforeFallBack))
        < unixNano nyBeforeFallBack
   \<and> goFormat nyBeforeFallBack ''2006-01-02 15:04:05 MST'' = ''2015-11-01 01:59:30 EDT''
   \<and> goFormat (Add nyBeforeFallBack
          (rolloverAfter goLib (bareHook minutePattern) nyBeforeFallBack))
          ''2006-01-02 15:04:05 MST'' = ''2015-11-01 01:00:00 EDT''
   \<and> goFormat (Add nyBeforeFallBack (30 * Second)) ''2006-01-02 15:04:05 MST''
        = ''2015-11-01 01:00:00 EST''
   \<and> rolloverAfter goLib (bareHook ''/tmp/tbrfh/2006-01.log'') (Date 2015 1 30 10 0 0 0 UTC)
        = 710 * Hour
   \<and> goFormat (Add (Date 2015 1 30 10 0 0 0 UTC) (710 * Hour)) ''2006-01-02 15:04:05 MST''
        = ''2015-03-01 00:00:00 UTC''"
proof -
  have p: "FileNamePattern (bareHook minutePattern) = tb_fileNamePattern (tb_bareHook minutePattern)"
    by (simp add: bareHook_def tb_bareHook_def)
  have tb: "tb_rolloverAfter goLib (tb_bareHook minutePattern) nyBeforeFallBack
      = - (59 * Minute + 30 * Second)"
    using tb_rolloverAfter_as_fs [OF p, of goLib nyBeforeFallBack] ny_rolloverAfter by simp
  have lt: "unixNano (Add nyBeforeFallBack
      (rolloverAfter goLib (bareHook minutePattern) nyBeforeFallBack)) < unixNano nyBeforeFallBack"
    unfolding ny_rolloverAfter by (simp add: Add_def Minute_def Second_def)
  have n2: "Format goLib (advance PerMinute nyBeforeFallBack) minutePattern
      = ''/tmp/tbrfh/2015/11/01/01/minute.00.log''"
    unfolding advance.simps by (rule ny_names(2))
  show ?thesis
    unfolding ny_rolloverAfter
    using ny_names(1) n2 tb lt [unfolded ny_rolloverAfter] ny_landing january_thirtieth
    by blast
qed

text \<open>
  C5. When the rendered name is the same after every one of the five probes (one minute,
  one hour, one day, one month, one year after \<open>t\<close>), \<open>rolloverAfter\<close> returns 0. The
  constructor then leaves the timer nil, and it stays nil whatever happens afterwards;
  a timer that does fire is stopped by \<open>resetTimer\<close> instead of being reset, and a
  stopped timer is never armed again.
\<close>

theorem unchanging_name_never_arms_timer:
  fixes h :: "'e FsrollHook"
  assumes "\<forall>g. Format lib t (FileNamePattern h) = Format lib (advance g t) (FileNamePattern h)"
  shows "rolloverAfter lib h t = 0
       \<and> timer (fst (NewHook lib now1 t lvls (formatter h) (FileNamePattern h) w)) = None
       \<and> timer (fs_hook (run lib (start lib now1 t lvls (formatter h) (FileNamePattern h) w) evs))
           = None
       \<and> (timer h \<noteq> None \<longrightarrow>
            (\<exists>h' w' sp. resetTimer lib now1 t h w = Some (h', w', sp) \<and> timer h' = Some Stopped
               \<and> (\<forall>s. fs_hook s = h' \<longrightarrow> timer (fs_hook (run lib s evs)) = Some Stopped)))"
proof -
  have z: "rolloverAfter lib h t = 0"
    using assms by (rule rolloverAfter_unchanging)
  have n: "timer (fst (NewHook lib now1 t lvls (formatter h) (FileNamePattern h) w)) = None"
    using NewHook_timer [of h "FileNamePattern h" lib now1 t lvls "formatter h" w] z by simp
  have "timer (fs_hook (start lib now1 t lvls (formatter h) (FileNamePattern h) w)) = None"
    using n by (auto simp add: start_def split: prod.splits)
  then have r: "timer (fs_hook (run lib (start lib now1 t lvls (formatter h) (FileNamePattern h) w)
      evs)) = None"
    by (simp add: run_idle_timer)
  have s: "\<exists>h' w' sp. resetTimer lib now1 t h w = Some (h', w', sp) \<and> timer h' = Some Stopped
      \<and> (\<forall>s. fs_hook s = h' \<longrightarrow> timer (fs_hook (run lib s evs)) = Some Stopped)"
    if tn: "timer h \<noteq> None"
  proof -
    obtain h' w' sp where a: "resetTimer lib now1 t h w = Some (h', w', sp)"
      and b: "timer h' = Some Stopped"
      using resetTimer_timer [OF tn, of lib now1 t w] z by auto
    have "timer (fs_hook (run lib s evs)) = Some Stopped" if "fs_hook s = h'" for s
      using that b by (simp add: run_idle_timer)
    then show ?thesis using a b by blast
  qed
  show ?thesis using z n r s by blast
qed

theorem unchanging_name_never_arms_timer_witness:
  "(\<forall>g. Format goLib nyBeforeFallBack (FileNamePattern (bareHook ''/tmp/tbrfh/app.log''))
        = Format goLib (advance g nyBeforeFallBack)
            (FileNamePattern (bareHook ''/tmp/tbrfh/app.log'')))
   \<and> rolloverAfter goLib (bareHook ''/tmp/tbrfh/app.log'') nyBeforeFallBack = 0
   \<and> timer (fst (NewHook goLib nyBeforeFallBack nyBeforeFallBack
         [InfoLevel] lineFormatter ''/tmp/tbrfh/app.log'' emptyOS)) = None
   \<and> timer (fs_hook (run goLib
         (start goLib nyBeforeFallBack nyBeforeFallBack [InfoLevel] lineFormatter
            ''/tmp/tbrfh/app.log'' emptyOS)
         [Fires ''a'', Serve, TimerFires nyBeforeFallBack nyBeforeFallBack])) = None"
proof -
  let ?h = "bareHook ''/tmp/tbrfh/app.log''"
  let ?t = "nyBeforeFallBack"
  have p: "FileNamePattern ?h = ''/tmp/tbrfh/app.log''" "formatter ?h = lineFormatter"
    by (simp_all add: bareHook_def)
  have a: "\<forall>g. Format goLib ?t (FileNamePattern ?h) = Format goLib (advance g ?t) (FileNamePattern ?h)"
    unfolding p by (simp add: goLib_def goFormat_app_log del: goFormat.simps advance.simps)
  show ?thesis
    using unchanging_name_never_arms_timer [OF a, of ?t "[InfoLevel]" emptyOS
        "[Fires ''a'', Serve, TimerFires nyBeforeFallBack nyBeforeFallBack]"] a
    unfolding p by blast
qed

text \<open>
  C9. A probe that renders a different name does not always give a positive duration.
  At the instant of C1 the name changes at the minute probe and the duration is
  negative; \<open>resetTimer\<close> then stops the timer instead of resetting it, and the
  constructor leaves the timer nil, so no rollover happens any more although the
  pattern changes every minute.
\<close>

theorem timer_stops_when_clocks_go_back:
  "Format goLib nyBeforeFallBack (FileNamePattern (bareHook minutePattern))
     \<noteq> Format goLib (advance PerMinute nyBeforeFallBack) (FileNamePattern (bareHook minutePattern))
   \<and> rolloverAfter goLib (bareHook minutePattern) nyBeforeFallBack < 0
   \<and> (\<exists>h' w' sp.
         resetTimer goLib now1 nyBeforeFallBack ((bareHook minutePattern)\<lparr>timer := Some (Armed d)\<rparr>) w
           = Some (h', w', sp)
         \<and> timer h' = Some Stopped)
   \<and> timer (fst (NewHook goLib now1 nyBeforeFallBack lvls lineFormatter minutePattern w)) = None"
proof -
  let ?h = "bareHook minutePattern"
  let ?k = "?h\<lparr>timer := Some (Armed d)\<rparr>"
  have v: "rolloverAfter goLib ?h nyBeforeFallBack = - (59 * Minute + 30 * Second)"
    by (rule ny_rolloverAfter)
  have neg: "rolloverAfter goLib ?h nyBeforeFallBack < 0"
    unfolding v by (simp add: Minute_def Second_def)
  have k: "rolloverAfter goLib ?k nyBeforeFallBack = rolloverAfter goLib ?h nyBeforeFallBack"
    by (rule rolloverAfter_pattern) simp
  have p: "FileNamePattern ?h = minutePattern"
    by (simp add: bareHook_def)
  have a: "Format goLib nyBeforeFallBack (FileNamePattern ?h)
      \<noteq> Format goLib (advance PerMinute nyBeforeFallBack) (FileNamePattern ?h)"
    unfolding p advance.simps ny_names by simp
  have r: "\<exists>h' w' sp. resetTimer goLib now1 nyBeforeFallBack ?k w = Some (h', w', sp)
      \<and> timer h' = Some Stopped"
    using resetTimer_timer [of ?k goLib now1 nyBeforeFallBack w] neg unfolding k by simp
  have n: "timer (fst (NewHook goLib now1 nyBeforeFallBack lvls lineFormatter minutePattern w)) = None"
    using NewHook_timer [of ?h minutePattern goLib now1 nyBeforeFallBack lvls lineFormatter w]
      neg p by simp
  show ?thesis using a neg r n by blast
qed

section \<open>The archiver\<close>

lemma gz_name_differs: "fileName @ GzipSuffix \<noteq> fileName"
  by (simp add: GzipSuffix_def)

lemma OpenFile_other_name:
  assumes "OpenFile name w = (r, w1)" "other \<noteq> name"
  shows "names w1 other = names w other"
  using assms by (auto simp: OpenFile_def split: option.splits)

lemma OpenFile_faults:
  assumes "OpenFile name w = (r, w1)"
  shows "openFault w1 = openFault w" "copyFault w1 = copyFault w" "flushFault w1 = flushFault w"
    "removeFault w1 = removeFault w" "logged w1 = logged w"
  using assms by (auto simp: OpenFile_def split: option.splits)

lemma appendTo_names: "names (appendTo i b w) = names w"
  by (simp add: appendTo_def)

text \<open>How \<open>gzipArchive\<close> fails: at one of its three steps, and in no other way.\<close>

lemma gzipArchive_fails_iff:
  "fst (gzipArchive lib fileName w) = Some err \<longleftrightarrow>
     openFault w (fileName @ GzipSuffix) = Some err
   \<or> openFault w (fileName @ GzipSuffix) = None
       \<and> (openFault w fileName = Some err
          \<or> openFault w fileName = None \<and> names w fileName = None \<and> err = ErrNotExist)
   \<or> openFault w (fileName @ GzipSuffix) = None \<and> openFault w fileName = None
       \<and> names w fileName \<noteq> None \<and> (\<exists>n. copyFault w fileName = Some (n, err))"
proof -
  obtain r w1 where o: "OpenFile (fileName @ GzipSuffix) w = (r, w1)"
    by (metis prod.exhaust)
  have n: "names w1 fileName = names w fileName"
    using OpenFile_other_name [OF o, of fileName] gz_name_differs [of fileName] by auto
  note f = OpenFile_faults [OF o]
  show ?thesis
  proof (cases "openFault w (fileName @ GzipSuffix)")
    case (Some e)
    then show ?thesis by (simp add: gzipArchive_def Let_def OpenFile_def)
  next
    case None
    then obtain g where r: "r = Inr g"
      using o by (auto simp: OpenFile_def split: option.splits)
    show ?thesis
      using None
      by (auto simp: gzipArchive_def Let_def o r Open_def f n split: option.splits)
  qed
qed

lemma gzipArchive_keeps_source:
  "names (snd (gzipArchive lib fileName w)) fileName = names w fileName"
proof -
  obtain r w1 where o: "OpenFile (fileName @ GzipSuffix) w = (r, w1)"
    by (metis prod.exhaust)
  have n: "names w1 fileName = names w fileName"
    using OpenFile_other_name [OF o, of fileName] gz_name_differs [of fileName] by auto
  show ?thesis
    by (auto simp: gzipArchive_def Let_def o n appendTo_names
        split: sum.splits option.splits prod.splits)
qed


lemma gzipArchiveAndDelete_after_failure:
  assumes "fst (gzipArchive lib fileName w) = Some err"
  shows "gzipArchiveAndDelete lib fileName w = gzipArchive lib fileName w"
  using assms by (cases "gzipArchive lib fileName w") (simp add: gzipArchiveAndDelete_def)

lemma gzipArchiveAndDelete_after_success:
  assumes "fst (gzipArchive lib fileName w) = None"
  shows "gzipArchiveAndDelete lib fileName w = Remove fileName (snd (gzipArchive lib fileName w))"
  using assms
  by (cases "gzipArchive lib fileName w")
     (auto simp: gzipArchiveAndDelete_def split: prod.splits option.splits)

text \<open>
  C7. If opening the \<open>.gz\<close> target, opening the source or copying fails, \<open>gzipArchive\<close>
  returns that error, and \<open>gzipArchiveAndDelete\<close> returns it with the world as \<open>gzipArchive\<close>
  left it: \<^verbatim>\<open>os.Remove\<close> is not called and the name of the original still refers to the
  same file. \<open>archiveOldFile\<close> (of either hook) only adds the line "Error on archiving
  file" to the log. \<^verbatim>\<open>os.Remove\<close> is what runs after a \<open>gzipArchive\<close> without error.
\<close>

theorem archive_failure_keeps_original:
  fixes h :: "'e FsrollHook" and k :: "'f TimeBasedRollingFileHook"
  assumes "openFault w (fileName @ GzipSuffix) = Some err
         \<or> openFault w (fileName @ GzipSuffix) = None
             \<and> (openFault w fileName = Some err
                \<or> openFault w fileName = None \<and> names w fileName = None \<and> err = ErrNotExist)
         \<or> openFault w (fileName @ GzipSuffix) = None \<and> openFault w fileName = None
             \<and> names w fileName \<noteq> None \<and> (\<exists>n. copyFault w fileName = Some (n, err))"
  shows "fst (gzipArchive lib fileName w) = Some err
       \<and> gzipArchiveAndDelete lib fileName w = gzipArchive lib fileName w
       \<and> names (snd (gzipArchiveAndDelete lib fileName w)) fileName = names w fileName
       \<and> (ToLower (Ext (FileNamePattern h)) = GzipSuffix \<longrightarrow>
            archiveOldFile lib h fileName w
              = Printf (LogArchive fileName err) (snd (gzipArchive lib fileName w))
            \<and> names (archiveOldFile lib h fileName w) fileName = names w fileName)
       \<and> (ToLower (Ext (tb_fileNamePattern k)) = GzipSuffix \<longrightarrow>
            tb_archiveOldFile lib k fileName w
              = Printf (LogArchive fileName err) (snd (gzipArchive lib fileName w))
            \<and> names (tb_archiveOldFile lib k fileName w) fileName = names w fileName)
       \<and> (fst (gzipArchive lib fileName w') = None \<longrightarrow>
            gzipArchiveAndDelete lib fileName w'
              = Remove fileName (snd (gzipArchive lib fileName w')))"
proof -
  have f: "fst (gzipArchive lib fileName w) = Some err"
    using assms by (simp only: gzipArchive_fails_iff)
  have d: "gzipArchiveAndDelete lib fileName w = gzipArchive lib fileName w"
    using f by (rule gzipArchiveAndDelete_after_failure)
  have n: "names (snd (gzipArchiveAndDelete lib fileName w)) fileName = names w fileName"
    unfolding d by (rule gzipArchive_keeps_source)
  obtain w1 where g: "gzipArchive lib fileName w = (Some err, w1)"
    using f by (cases "gzipArchive lib fileName w") simp
  have a: "archiveOldFile lib h fileName w = Printf (LogArchive fileName err) (snd (gzipArchive lib fileName w))
      \<and> names (archiveOldFile lib h fileName w) fileName = names w fileName"
    if "ToLower (Ext (FileNamePattern h)) = GzipSuffix"
    using that n d g by (simp add: archiveOldFile_def Archivers_def Printf_def)
  have b: "tb_archiveOldFile lib k fileName w = Printf (LogArchive fileName err) (snd (gzipArchive lib fileName w))
      \<and> names (tb_archiveOldFile lib k fileName w) fileName = names w fileName"
    if "ToLower (Ext (tb_fileNamePattern k)) = GzipSuffix"
    using that n d g by (simp add: tb_archiveOldFile_def Archivers_def Printf_def)
  show ?thesis
    using f d n a b gzipArchiveAndDelete_after_success [of lib fileName w'] by blast
qed

theorem archive_failure_keeps_original_witness:
  "openFault lockedGzOS (''/tmp/a.log'' @ GzipSuffix) = Some ErrPermission
   \<and> fst (gzipArchive goLib ''/tmp/a.log'' lockedGzOS) = Some ErrPermission
   \<and> gzipArchiveAndDelete goLib ''/tmp/a.log'' lockedGzOS = gzipArchive goLib ''/tmp/a.log'' lockedGzOS
   \<and> names (snd (gzipArchiveAndDelete goLib ''/tmp/a.log'' lockedGzOS)) ''/tmp/a.log'' = Some 0"
proof -
  have a: "openFault lockedGzOS (''/tmp/a.log'' @ GzipSuffix) = Some ErrPermission"
    by (simp add: lockedGzOS_def GzipSuffix_def)
  have n: "names lockedGzOS ''/tmp/a.log'' = Some 0"
    by (simp add: lockedGzOS_def leftoverGzOS_def)
  note T = archive_failure_keeps_original
    [OF disjI1 [OF a], of goLib "bareHook []" "tb_bareHook []" emptyOS]
  from T have t1: "fst (gzipArchive goLib ''/tmp/a.log'' lockedGzOS) = Some ErrPermission"
    and t2: "gzipArchiveAndDelete goLib ''/tmp/a.log'' lockedGzOS
      = gzipArchive goLib ''/tmp/a.log'' lockedGzOS"
    and t3: "names (snd (gzipArchiveAndDelete goLib ''/tmp/a.log'' lockedGzOS)) ''/tmp/a.log''
      = names lockedGzOS ''/tmp/a.log''"
    by blast+
  show ?thesis using a t1 t2 t3 [unfolded n] by blast
qed

text \<open>
  C10. \<open>gzipArchive\<close> opens \<open>fileName + ".gz"\<close> with \<^verbatim>\<open>O_APPEND|O_CREATE|O_WRONLY\<close>. If that
  file exists, the compressed stream of the original goes after the bytes it already
  holds; if it does not, it is created and holds the stream alone.
\<close>

theorem gzipArchive_appends_to_existing_gz:
  assumes "names w fileName = Some j"
    and "openFault w (fileName @ GzipSuffix) = None" and "openFault w fileName = None"
    and "copyFault w fileName = None" and "flushFault w fileName = None"
  shows "fst (gzipArchive lib fileName w) = None
       \<and> (names w (fileName @ GzipSuffix) = Some i \<longrightarrow>
            gzipArchive lib fileName w = (None, appendTo i (Gzip lib (content w j)) w)
          \<and> fileContent (snd (gzipArchive lib fileName w)) (fileName @ GzipSuffix)
              = Some (content w i @ Gzip lib (content w j)))
       \<and> (names w (fileName @ GzipSuffix) = None \<and> j \<noteq> nextIno w \<longrightarrow>
            fileContent (snd (gzipArchive lib fileName w)) (fileName @ GzipSuffix)
              = Some (Gzip lib (content w j)))"
proof -
  note d = gz_name_differs [of fileName]
  have a: "fst (gzipArchive lib fileName w) = None"
    using assms d
    by (auto simp: gzipArchive_def Let_def OpenFile_def Open_def split: option.splits)
  have b: "gzipArchive lib fileName w = (None, appendTo i (Gzip lib (content w j)) w)
      \<and> fileContent (snd (gzipArchive lib fileName w)) (fileName @ GzipSuffix)
          = Some (content w i @ Gzip lib (content w j))"
    if "names w (fileName @ GzipSuffix) = Some i"
    using that assms
    by (simp add: gzipArchive_def Let_def OpenFile_def Open_def fileContent_def appendTo_def)
  have c: "fileContent (snd (gzipArchive lib fileName w)) (fileName @ GzipSuffix)
      = Some (Gzip lib (content w j))"
    if "names w (fileName @ GzipSuffix) = None \<and> j \<noteq> nextIno w"
    using that assms d
    by (simp add: gzipArchive_def Let_def OpenFile_def Open_def fileContent_def appendTo_def)
  show ?thesis using a b c by blast
qed

theorem gzipArchive_appends_to_existing_gz_witness:
  "names leftoverGzOS ''/tmp/a.log'' = Some 0
   \<and> names leftoverGzOS (''/tmp/a.log'' @ GzipSuffix) = Some 1
   \<and> fst (gzipArchive goLib ''/tmp/a.log'' leftoverGzOS) = None
   \<and> fileContent (snd (gzipArchive goLib ''/tmp/a.log'' leftoverGzOS)) ''/tmp/a.log.gz''
       = Some ''OLDGZdata''"
proof -
  have n: "names leftoverGzOS ''/tmp/a.log'' = Some 0"
    "names leftoverGzOS (''/tmp/a.log'' @ GzipSuffix) = Some 1"
    by (simp_all add: leftoverGzOS_def GzipSuffix_def)
  have f: "openFault leftoverGzOS (''/tmp/a.log'' @ GzipSuffix) = None"
    "openFault leftoverGzOS ''/tmp/a.log'' = None"
    "copyFault leftoverGzOS ''/tmp/a.log'' = None" "flushFault leftoverGzOS ''/tmp/a.log'' = None"
    by (simp_all add: leftoverGzOS_def emptyOS_def)
  have c: "content leftoverGzOS 1 @ Gzip goLib (content leftoverGzOS 0) = ''OLDGZdata''"
    by (simp add: leftoverGzOS_def goLib_def)
  note T = gzipArchive_appends_to_existing_gz [OF n(1) f, of goLib 1]
  from T n(2) have t1: "fst (gzipArchive goLib ''/tmp/a.log'' leftoverGzOS) = None"
    and t2: "fileContent (snd (gzipArchive goLib ''/tmp/a.log'' leftoverGzOS))
        (''/tmp/a.log'' @ GzipSuffix)
      = Some (content leftoverGzOS 1 @ Gzip goLib (content leftoverGzOS 0))"
    by blast+
  have g: "''/tmp/a.log'' @ GzipSuffix = ''/tmp/a.log.gz''"
    by (simp add: GzipSuffix_def)
  show ?thesis using n t1 t2 [unfolded c g] by blast
qed

section \<open>Rolling the file over\<close>

lemma closedOld_world:
  "names (snd (closedOld f w)) = names w" "content (snd (closedOld f w)) = content w"
  "mkdirFault (snd (closedOld f w)) = mkdirFault w" "openFault (snd (closedOld f w)) = openFault w"
  "nextIno (snd (closedOld f w)) = nextIno w"
  by (simp_all add: closedOld_def Printf_def split: option.splits)

lemma rolloverFile_eq:
  "rolloverFile lib now h w =
     (let name = rolloverName lib now (FileNamePattern h);
          old = fst (closedOld (file' h) w);
          w1 = snd (closedOld (file' h) w)
      in case mkdirFault w (Dir name) of
           Some err \<Rightarrow> ((old, Some err), h\<lparr>file' := None\<rparr>, w1)
         | None \<Rightarrow>
             (case OpenFile name w1 of
                (Inl err, w3) \<Rightarrow> ((old, Some err), h\<lparr>file' := None\<rparr>, w3)
              | (Inr newFile, w3) \<Rightarrow> ((old, None), h\<lparr>file' := Some newFile\<rparr>, w3)))"
  by (simp add: rolloverFile_def rolloverName_def closedOld_def Let_def MkdirAll_def Printf_def
      split: option.splits prod.splits sum.splits)

lemma tb_rolloverFile_eq:
  "tb_rolloverFile lib now h w =
     (let name = rolloverName lib now (tb_fileNamePattern h);
          old = fst (closedOld (tb_file h) w);
          w1 = snd (closedOld (tb_file h) w)
      in case mkdirFault w (Dir name) of
           Some err \<Rightarrow> ((old, Some err), h\<lparr>tb_file := None\<rparr>, w1)
         | None \<Rightarrow>
             (case OpenFile name w1 of
                (Inl err, w3) \<Rightarrow> ((old, Some err), h\<lparr>tb_file := None\<rparr>, w3)
              | (Inr newFile, w3) \<Rightarrow> ((old, None), h\<lparr>tb_file := Some newFile\<rparr>, w3)))"
  by (simp add: tb_rolloverFile_def rolloverName_def closedOld_def Let_def MkdirAll_def Printf_def
      split: option.splits prod.splits sum.splits)

lemma OpenFile_result:
  "OpenFile name w =
     (case openFault w name of
        Some e \<Rightarrow> (Inl e, w)
      | None \<Rightarrow> (Inr \<lparr>Name = name, ino = (case names w name of Some i \<Rightarrow> i | None \<Rightarrow> nextIno w)\<rparr>,
                 snd (OpenFile name w)))"
  by (simp add: OpenFile_def split: option.splits)


lemma closedOld_name:
  "fst (closedOld f w) = (case f of None \<Rightarrow> [] | Some x \<Rightarrow> Name x)"
  by (simp add: closedOld_def split: option.splits)

lemma write'_nil: "file' h = None \<Longrightarrow> write' h w e = (None, h, w)"
  by (simp add: write'_def)

lemma tb_write_nil: "tb_file h = None \<Longrightarrow> tb_write h w e = (None, h, w)"
  by (simp add: tb_write_def)

lemma rolloverFile_fails:
  assumes "mkdirFault w (Dir (rolloverName lib now (FileNamePattern h))) = Some err
         \<or> mkdirFault w (Dir (rolloverName lib now (FileNamePattern h))) = None
             \<and> openFault w (rolloverName lib now (FileNamePattern h)) = Some err"
  shows "rolloverFile lib now h w =
           ((fst (closedOld (file' h) w), Some err), h\<lparr>file' := None\<rparr>, snd (closedOld (file' h) w))"
  using assms
  by (auto simp: rolloverFile_eq Let_def OpenFile_def closedOld_world)

lemma tb_rolloverFile_fails:
  assumes "mkdirFault w (Dir (rolloverName lib now (tb_fileNamePattern h))) = Some err
         \<or> mkdirFault w (Dir (rolloverName lib now (tb_fileNamePattern h))) = None
             \<and> openFault w (rolloverName lib now (tb_fileNamePattern h)) = Some err"
  shows "tb_rolloverFile lib now h w =
           ((fst (closedOld (tb_file h) w), Some err), h\<lparr>tb_file := None\<rparr>,
            snd (closedOld (tb_file h) w))"
  using assms
  by (auto simp: tb_rolloverFile_eq Let_def OpenFile_def closedOld_world)

lemma rolloverFile_succeeds:
  assumes "mkdirFault w (Dir (rolloverName lib now (FileNamePattern h))) = None"
    and "openFault w (rolloverName lib now (FileNamePattern h)) = None"
  shows "\<exists>w1 f. rolloverFile lib now h w
            = ((fst (closedOld (file' h) w), None), h\<lparr>file' := Some f\<rparr>, w1)
          \<and> Name f = rolloverName lib now (FileNamePattern h)
          \<and> names w1 (Name f) = Some (ino f)"
  using assms
  by (auto simp: rolloverFile_eq Let_def OpenFile_def closedOld_world split: option.splits)

lemma tb_rolloverFile_succeeds:
  assumes "mkdirFault w (Dir (rolloverName lib now (tb_fileNamePattern h))) = None"
    and "openFault w (rolloverName lib now (tb_fileNamePattern h)) = None"
  shows "\<exists>w1 f. tb_rolloverFile lib now h w
            = ((fst (closedOld (tb_file h) w), None), h\<lparr>tb_file := Some f\<rparr>, w1)
          \<and> Name f = rolloverName lib now (tb_fileNamePattern h)
          \<and> names w1 (Name f) = Some (ino f)"
  using assms
  by (auto simp: tb_rolloverFile_eq Let_def OpenFile_def closedOld_world split: option.splits)

text \<open>
  While the hook has no handle and the timer does not fire, the writing goroutine has no
  effect on the hook or the world: the run ends as the run without its steps does.
\<close>

lemma run_without_handle:
  assumes "fs_hook s = fs_hook s'" "fs_world s = fs_world s'" "fs_archiving s = fs_archiving s'"
    and "file' (fs_hook s) = None" and "\<forall>ev\<in>set evs. \<not> isTimerFires ev"
  shows "fs_hook (run lib s evs) = fs_hook s
       \<and> fs_world (run lib s evs) = fs_world (run lib s' (filter (\<lambda>ev. \<not> isServe ev) evs))"
  using assms
proof (induction evs arbitrary: s s')
  case Nil
  then show ?case by simp
next
  case (Cons ev evs)
  show ?case
  proof (cases ev)
    case (Fires e)
    have "fs_hook (run lib (step lib s ev) evs) = fs_hook (step lib s ev)
        \<and> fs_world (run lib (step lib s ev) evs)
          = fs_world (run lib (step lib s' ev) (filter (\<lambda>ev. \<not> isServe ev) evs))"
      using Cons.prems Fires by (intro Cons.IH) (simp_all add: step_def)
    then show ?thesis using Fires by (simp add: isServe_def step_def)
  next
    case Serve
    have st: "fs_hook (step lib s ev) = fs_hook s" "fs_world (step lib s ev) = fs_world s"
      "fs_archiving (step lib s ev) = fs_archiving s"
      using Cons.prems(4) Serve
      by (simp_all add: step_def writeEntry_def write'_nil split: list.splits)
    have "fs_hook (run lib (step lib s ev) evs) = fs_hook (step lib s ev)
        \<and> fs_world (run lib (step lib s ev) evs)
          = fs_world (run lib s' (filter (\<lambda>ev. \<not> isServe ev) evs))"
      using Cons.prems st by (intro Cons.IH) simp_all
    then show ?thesis using Serve st by (simp add: isServe_def)
  next
    case (TimerFires a b)
    then show ?thesis using Cons.prems(5) by (simp add: isTimerFires_def)
  next
    case ArchiverRuns
    have "fs_hook (run lib (step lib s ev) evs) = fs_hook (step lib s ev)
        \<and> fs_world (run lib (step lib s ev) evs)
          = fs_world (run lib (step lib s' ev) (filter (\<lambda>ev. \<not> isServe ev) evs))"
      using Cons.prems ArchiverRuns
      by (intro Cons.IH) (simp_all add: step_def split: list.splits)
    then show ?thesis using ArchiverRuns by (simp add: isServe_def step_def split: list.splits)
  next
    case (Outside f)
    have "fs_hook (run lib (step lib s ev) evs) = fs_hook (step lib s ev)
        \<and> fs_world (run lib (step lib s ev) evs)
          = fs_world (run lib (step lib s' ev) (filter (\<lambda>ev. \<not> isServe ev) evs))"
      using Cons.prems Outside by (intro Cons.IH) (simp_all add: step_def)
    then show ?thesis using Outside by (simp add: isServe_def step_def)
  qed
qed


text \<open>
  C6. If \<^verbatim>\<open>os.MkdirAll\<close> or \<^verbatim>\<open>os.OpenFile\<close> fails in \<open>rolloverFile\<close> (of either hook),
  the method returns the error with the name of the previous file (empty if there was
  none) and leaves the hook without a handle. Every \<open>write\<close> then returns nil and
  changes nothing: as long as the timer does not fire, the hook stays as it is and the
  world ends as if the writing goroutine had not run at all. A later \<open>rolloverFile\<close> in
  which both calls succeed installs a handle on the file of that time.
\<close>

theorem failed_rollover_leaves_no_handle:
  fixes h :: "'e FsrollHook" and k :: "'f TimeBasedRollingFileHook"
  assumes "mkdirFault w (Dir (rolloverName lib now (FileNamePattern h))) = Some err
         \<or> mkdirFault w (Dir (rolloverName lib now (FileNamePattern h))) = None
             \<and> openFault w (rolloverName lib now (FileNamePattern h)) = Some err"
    and "tb_fileNamePattern k = FileNamePattern h"
  shows "rolloverFile lib now h w =
           ((case file' h of None \<Rightarrow> [] | Some f \<Rightarrow> Name f, Some err),
            h\<lparr>file' := None\<rparr>, snd (closedOld (file' h) w))
       \<and> tb_rolloverFile lib now k w =
           ((case tb_file k of None \<Rightarrow> [] | Some f \<Rightarrow> Name f, Some err),
            k\<lparr>tb_file := None\<rparr>, snd (closedOld (tb_file k) w))
       \<and> write' (h\<lparr>file' := None\<rparr>) w2 entry = (None, h\<lparr>file' := None\<rparr>, w2)
       \<and> tb_write (k\<lparr>tb_file := None\<rparr>) w2 entry' = (None, k\<lparr>tb_file := None\<rparr>, w2)
       \<and> (fs_hook s = h\<lparr>file' := None\<rparr> \<and> (\<forall>ev\<in>set evs. \<not> isTimerFires ev) \<longrightarrow>
            fs_hook (run lib s evs) = h\<lparr>file' := None\<rparr>
            \<and> fs_world (run lib s evs)
                = fs_world (run lib s (filter (\<lambda>ev. \<not> isServe ev) evs)))
       \<and> (mkdirFault w3 (Dir (rolloverName lib now3 (FileNamePattern h))) = None
            \<and> openFault w3 (rolloverName lib now3 (FileNamePattern h)) = None \<longrightarrow>
            (\<exists>w4 f. rolloverFile lib now3 (h\<lparr>file' := None\<rparr>) w3
                      = (([], None), h\<lparr>file' := Some f\<rparr>, w4)
                  \<and> Name f = rolloverName lib now3 (FileNamePattern h)
                  \<and> names w4 (Name f) = Some (ino f)))"
proof -
  have a: "rolloverFile lib now h w =
      ((case file' h of None \<Rightarrow> [] | Some f \<Rightarrow> Name f, Some err),
       h\<lparr>file' := None\<rparr>, snd (closedOld (file' h) w))"
    using rolloverFile_fails [OF assms(1)] by (simp add: closedOld_name)
  have b: "tb_rolloverFile lib now k w =
      ((case tb_file k of None \<Rightarrow> [] | Some f \<Rightarrow> Name f, Some err),
       k\<lparr>tb_file := None\<rparr>, snd (closedOld (tb_file k) w))"
    using tb_rolloverFile_fails [of w lib now k err] assms by (simp add: closedOld_name)
  have c: "write' (h\<lparr>file' := None\<rparr>) w2 entry = (None, h\<lparr>file' := None\<rparr>, w2)"
    by (simp add: write'_nil)
  have d: "tb_write (k\<lparr>tb_file := None\<rparr>) w2 entry' = (None, k\<lparr>tb_file := None\<rparr>, w2)"
    by (simp add: tb_write_nil)
  have e: "fs_hook (run lib s evs) = h\<lparr>file' := None\<rparr>
      \<and> fs_world (run lib s evs) = fs_world (run lib s (filter (\<lambda>ev. \<not> isServe ev) evs))"
    if "fs_hook s = h\<lparr>file' := None\<rparr> \<and> (\<forall>ev\<in>set evs. \<not> isTimerFires ev)"
    using run_without_handle [of s s evs lib] that by simp
  have f: "\<exists>w4 f. rolloverFile lib now3 (h\<lparr>file' := None\<rparr>) w3
        = (([], None), h\<lparr>file' := Some f\<rparr>, w4)
      \<and> Name f = rolloverName lib now3 (FileNamePattern h)
      \<and> names w4 (Name f) = Some (ino f)"
    if "mkdirFault w3 (Dir (rolloverName lib now3 (FileNamePattern h))) = None
      \<and> openFault w3 (rolloverName lib now3 (FileNamePattern h)) = None"
    using rolloverFile_succeeds [of w3 lib now3 "h\<lparr>file' := None\<rparr>"] that
    by (simp add: closedOld_name)
  show ?thesis using a b c d e f by blast
qed

theorem failed_rollover_leaves_no_handle_witness:
  "mkdirFault readOnlyOS (Dir (rolloverName goLib nyBeforeFallBack (FileNamePattern
      ((bareHook minutePattern)\<lparr>file' := Some \<lparr>Name = ''/tmp/old.log'', ino = 0\<rparr>\<rparr>))))
     = Some ErrPermission
   \<and> tb_fileNamePattern (tb_bareHook minutePattern)
       = FileNamePattern ((bareHook minutePattern)\<lparr>file' := Some \<lparr>Name = ''/tmp/old.log'', ino = 0\<rparr>\<rparr>)
   \<and> rolloverFile goLib nyBeforeFallBack
        ((bareHook minutePattern)\<lparr>file' := Some \<lparr>Name = ''/tmp/old.log'', ino = 0\<rparr>\<rparr>) readOnlyOS
       = ((''/tmp/old.log'', Some ErrPermission), bareHook minutePattern, readOnlyOS)
   \<and> write' (bareHook minutePattern) emptyOS ''entry'' = (None, bareHook minutePattern, emptyOS)"
proof -
  let ?h = "(bareHook minutePattern)\<lparr>file' := Some \<lparr>Name = ''/tmp/old.log'', ino = 0\<rparr>\<rparr>"
  have a: "mkdirFault readOnlyOS (Dir (rolloverName goLib nyBeforeFallBack (FileNamePattern ?h)))
      = Some ErrPermission"
    by (simp add: readOnlyOS_def)
  have b: "tb_fileNamePattern (tb_bareHook minutePattern) = FileNamePattern ?h"
    by (simp add: bareHook_def tb_bareHook_def)
  have h0: "?h\<lparr>file' := None\<rparr> = bareHook minutePattern"
    by (simp add: bareHook_def)
  have c: "snd (closedOld (file' ?h) readOnlyOS) = readOnlyOS"
    by (simp add: closedOld_def Close_def readOnlyOS_def emptyOS_def)
  note T = failed_rollover_leaves_no_handle
    [OF disjI1 [OF a] b, of emptyOS "''entry''" "''entry''" undefined "[]" emptyOS nyBeforeFallBack]
  from T have t1: "rolloverFile goLib nyBeforeFallBack ?h readOnlyOS =
      ((case file' ?h of None \<Rightarrow> [] | Some f \<Rightarrow> Name f, Some ErrPermission),
       ?h\<lparr>file' := None\<rparr>, snd (closedOld (file' ?h) readOnlyOS))"
    and t2: "write' (?h\<lparr>file' := None\<rparr>) emptyOS ''entry'' = (None, ?h\<lparr>file' := None\<rparr>, emptyOS)"
    by blast+
  have t1': "rolloverFile goLib nyBeforeFallBack ?h readOnlyOS
      = ((''/tmp/old.log'', Some ErrPermission), bareHook minutePattern, readOnlyOS)"
    using t1 unfolding c h0 by simp
  show ?thesis using a b t1' t2 [unfolded h0] by blast
qed


lemma goFormat_app_log_gz:
  "goFormat t ''/tmp/tbrfh/app.log.gz'' = ''/tmp/tbrfh/app.log.gz''"
  "goFormat t ''/tmp/tbrfh/app.log.GZ'' = ''/tmp/tbrfh/app.log.GZ''"
  by (simp_all add: stdAt_def hasPrefix_def)

lemma rolloverName_gz:
  "rolloverName goLib t ''/tmp/tbrfh/app.log.gz'' = ''/tmp/tbrfh/app.log''"
  "rolloverName goLib t ''/tmp/tbrfh/app.log.GZ'' = ''/tmp/tbrfh/app.log.GZ''"
  by (simp_all add: rolloverName_def goLib_def goFormat_app_log_gz Ext_def ToLower_def
      toLowerChar_def GzipSuffix_def TrimSuffix_def HasSuffix_def
      del: goFormat.simps)

text \<open>
  C4. \<open>rolloverFile\<close> compares the lower-cased extension of the rendered name with \<open>.gz\<close>
  and then calls \<^verbatim>\<open>strings.TrimSuffix\<close> with \<open>.gz\<close> itself, which only removes a
  lower-case suffix. For the pattern \<open>/tmp/tbrfh/app.log.GZ\<close> the comparison succeeds and
  nothing is removed: both hooks open \<open>/tmp/tbrfh/app.log.GZ\<close>, and no file
  \<open>/tmp/tbrfh/app.log\<close> exists afterwards. With \<open>.gz\<close> in lower case the suffix is removed.
\<close>

theorem upper_case_gz_suffix_not_stripped:
  "rolloverName goLib t ''/tmp/tbrfh/app.log.GZ'' = ''/tmp/tbrfh/app.log.GZ''
   \<and> (\<exists>w1 f. rolloverFile goLib t (bareHook ''/tmp/tbrfh/app.log.GZ'') emptyOS
                = (([], None), (bareHook ''/tmp/tbrfh/app.log.GZ'')\<lparr>file' := Some f\<rparr>, w1)
             \<and> Name f = ''/tmp/tbrfh/app.log.GZ''
             \<and> names w1 ''/tmp/tbrfh/app.log.GZ'' = Some (ino f)
             \<and> names w1 ''/tmp/tbrfh/app.log'' = None)
   \<and> (\<exists>w1 f. tb_rolloverFile goLib t (tb_bareHook ''/tmp/tbrfh/app.log.GZ'') emptyOS
                = (([], None), (tb_bareHook ''/tmp/tbrfh/app.log.GZ'')\<lparr>tb_file := Some f\<rparr>, w1)
             \<and> Name f = ''/tmp/tbrfh/app.log.GZ''
             \<and> names w1 ''/tmp/tbrfh/app.log.GZ'' = Some (ino f)
             \<and> names w1 ''/tmp/tbrfh/app.log'' = None)
   \<and> rolloverName goLib t ''/tmp/tbrfh/app.log.gz'' = ''/tmp/tbrfh/app.log''"
proof -
  have a: "\<exists>w1 f. rolloverFile goLib t (bareHook ''/tmp/tbrfh/app.log.GZ'') emptyOS
        = (([], None), (bareHook ''/tmp/tbrfh/app.log.GZ'')\<lparr>file' := Some f\<rparr>, w1)
      \<and> Name f = ''/tmp/tbrfh/app.log.GZ''
      \<and> names w1 ''/tmp/tbrfh/app.log.GZ'' = Some (ino f)
      \<and> names w1 ''/tmp/tbrfh/app.log'' = None"
    by (simp add: rolloverFile_eq Let_def bareHook_def rolloverName_gz closedOld_def
        OpenFile_def emptyOS_def)
  have b: "\<exists>w1 f. tb_rolloverFile goLib t (tb_bareHook ''/tmp/tbrfh/app.log.GZ'') emptyOS
        = (([], None), (tb_bareHook ''/tmp/tbrfh/app.log.GZ'')\<lparr>tb_file := Some f\<rparr>, w1)
      \<and> Name f = ''/tmp/tbrfh/app.log.GZ''
      \<and> names w1 ''/tmp/tbrfh/app.log.GZ'' = Some (ino f)
      \<and> names w1 ''/tmp/tbrfh/app.log'' = None"
    by (simp add: tb_rolloverFile_eq Let_def tb_bareHook_def rolloverName_gz closedOld_def
        OpenFile_def emptyOS_def)
  show ?thesis using a b rolloverName_gz [of t] by blast
qed

section \<open>The constructors\<close>

lemma NewHook_error: "fst (snd (NewHook lib now1 now2 lvls fmtr p w)) = None"
  by (simp add: NewHook_def Let_def split: prod.splits)

lemma NewTimeBasedRollingFileHook_error:
  "fst (snd (NewTimeBasedRollingFileHook lib now1 now2 ident lvls fmtr p w)) = None"
  by (simp add: NewTimeBasedRollingFileHook_def Let_def split: prod.splits)

lemma NewHook_after_failure:
  assumes "rolloverFile lib now1
             \<lparr>levels = lvls, formatter = fmtr, FileNamePattern = p, ConstantPath = [],
              file' = None, timer = None\<rparr> w = ((old, Some err), h1, w1)"
  shows "file' (fst (NewHook lib now1 now2 lvls fmtr p w)) = None"
    and "snd (snd (NewHook lib now1 now2 lvls fmtr p w)) = Printf (LogCreate err) w1"
proof -
  have "file' h1 = None"
    using assms
    by (auto simp: rolloverFile_eq Let_def OpenFile_def split: option.splits)
  then show "file' (fst (NewHook lib now1 now2 lvls fmtr p w)) = None"
    by (simp add: NewHook_def Let_def assms)
  show "snd (snd (NewHook lib now1 now2 lvls fmtr p w)) = Printf (LogCreate err) w1"
    by (simp add: NewHook_def Let_def assms)
qed

lemma NewTimeBasedRollingFileHook_after_failure:
  assumes "tb_rolloverFile lib now1
             \<lparr>tb_id = ident, tb_levels = lvls, tb_formatter = fmtr, tb_fileNamePattern = p,
              tb_file = None, tb_timer = None\<rparr> w = ((old, Some err), h1, w1)"
  shows "tb_file (fst (NewTimeBasedRollingFileHook lib now1 now2 ident lvls fmtr p w)) = None"
    and "snd (snd (NewTimeBasedRollingFileHook lib now1 now2 ident lvls fmtr p w))
           = Printf (LogCreate err) w1"
proof -
  have "tb_file h1 = None"
    using assms
    by (auto simp: tb_rolloverFile_eq Let_def OpenFile_def split: option.splits)
  then show "tb_file (fst (NewTimeBasedRollingFileHook lib now1 now2 ident lvls fmtr p w)) = None"
    by (simp add: NewTimeBasedRollingFileHook_def Let_def assms)
  show "snd (snd (NewTimeBasedRollingFileHook lib now1 now2 ident lvls fmtr p w))
      = Printf (LogCreate err) w1"
    by (simp add: NewTimeBasedRollingFileHook_def Let_def assms)
qed


lemma bareHook_is_initial:
  "\<lparr>levels = [InfoLevel, WarnLevel, ErrorLevel], formatter = lineFormatter,
     FileNamePattern = p, ConstantPath = [], file' = None, timer = None\<rparr> = bareHook p"
  "\<lparr>tb_id = ''tbrfh'', tb_levels = [InfoLevel, WarnLevel, ErrorLevel],
     tb_formatter = lineFormatter, tb_fileNamePattern = p, tb_file = None, tb_timer = None\<rparr>
   = tb_bareHook p"
  by (simp_all add: bareHook_def tb_bareHook_def)

lemma rolloverFile_readOnly:
  "rolloverFile goLib now (bareHook p) readOnlyOS
     = (([], Some ErrPermission), bareHook p, readOnlyOS)"
  "tb_rolloverFile goLib now (tb_bareHook p) readOnlyOS
     = (([], Some ErrPermission), tb_bareHook p, readOnlyOS)"
proof -
  have a: "mkdirFault readOnlyOS d = Some ErrPermission" for d
    by (simp add: readOnlyOS_def)
  show "rolloverFile goLib now (bareHook p) readOnlyOS
      = (([], Some ErrPermission), bareHook p, readOnlyOS)"
    using rolloverFile_fails [of readOnlyOS goLib now "bareHook p" ErrPermission] a
    by (simp add: closedOld_def bareHook_def)
  show "tb_rolloverFile goLib now (tb_bareHook p) readOnlyOS
      = (([], Some ErrPermission), tb_bareHook p, readOnlyOS)"
    using tb_rolloverFile_fails [of readOnlyOS goLib now "tb_bareHook p" ErrPermission] a
    by (simp add: closedOld_def tb_bareHook_def)
qed

text \<open>
  C3, as the claim states it, fails: where no directory can be created the first
  rollover inside either constructor fails with a permission error, and the constructor
  returns a nil error.
\<close>

theorem constructor_hides_rollover_error:
  "snd (fst (rolloverFile goLib nyBeforeFallBack (bareHook minutePattern) readOnlyOS))
     = Some ErrPermission
   \<and> fst (snd (NewHook goLib nyBeforeFallBack nyBeforeFallBack
        [InfoLevel, WarnLevel, ErrorLevel] lineFormatter minutePattern readOnlyOS)) = None
   \<and> snd (fst (tb_rolloverFile goLib nyBeforeFallBack (tb_bareHook minutePattern) readOnlyOS))
     = Some ErrPermission
   \<and> fst (snd (NewTimeBasedRollingFileHook goLib nyBeforeFallBack nyBeforeFallBack ''tbrfh''
        [InfoLevel, WarnLevel, ErrorLevel] lineFormatter minutePattern readOnlyOS)) = None"
  by (simp add: rolloverFile_readOnly NewHook_error NewTimeBasedRollingFileHook_error)

text \<open>
  C3, amended. Both constructors always return a nil error. When the rollover inside
  the constructor fails, the error goes to the log ("Error on creating new file") and
  the hook that is returned has no file handle. \<open>Fire\<close> returns nil as well, so no
  operation of either hook returns an error to its caller.
\<close>

theorem constructors_log_and_return_nil:
  fixes fmtr :: "'e \<Rightarrow> error + string" and h :: "'e FsrollHook"
    and k :: "'e TimeBasedRollingFileHook"
  shows "fst (snd (NewHook lib now1 now2 lvls fmtr p w)) = None
       \<and> fst (snd (NewTimeBasedRollingFileHook lib now1 now2 ident lvls fmtr p w)) = None
       \<and> Fire h entry = None
       \<and> tb_Fire k entry = None
       \<and> (rolloverFile lib now1
             \<lparr>levels = lvls, formatter = fmtr, FileNamePattern = p, ConstantPath = [],
              file' = None, timer = None\<rparr> w = ((old, Some err), h1, w1) \<longrightarrow>
            file' (fst (NewHook lib now1 now2 lvls fmtr p w)) = None
            \<and> snd (snd (NewHook lib now1 now2 lvls fmtr p w)) = Printf (LogCreate err) w1)
       \<and> (tb_rolloverFile lib now1
             \<lparr>tb_id = ident, tb_levels = lvls, tb_formatter = fmtr, tb_fileNamePattern = p,
              tb_file = None, tb_timer = None\<rparr> w = ((old', Some err'), k1, w1') \<longrightarrow>
            tb_file (fst (NewTimeBasedRollingFileHook lib now1 now2 ident lvls fmtr p w)) = None
            \<and> snd (snd (NewTimeBasedRollingFileHook lib now1 now2 ident lvls fmtr p w))
                = Printf (LogCreate err') w1')"
  using NewHook_after_failure [of lib now1 lvls fmtr p w old err h1 w1 now2]
    NewTimeBasedRollingFileHook_after_failure [of lib now1 ident lvls fmtr p w old' err' k1 w1' now2]
  by (simp add: NewHook_error NewTimeBasedRollingFileHook_error Fire_def tb_Fire_def)

theorem constructors_log_and_return_nil_witness:
  "rolloverFile goLib nyBeforeFallBack
     \<lparr>levels = [InfoLevel, WarnLevel, ErrorLevel], formatter = lineFormatter,
      FileNamePattern = minutePattern, ConstantPath = [], file' = None, timer = None\<rparr>
     readOnlyOS = (([], Some ErrPermission), bareHook minutePattern, readOnlyOS)
   \<and> fst (snd (NewHook goLib nyBeforeFallBack nyBeforeFallBack
        [InfoLevel, WarnLevel, ErrorLevel] lineFormatter minutePattern readOnlyOS)) = None
   \<and> file' (fst (NewHook goLib nyBeforeFallBack nyBeforeFallBack
        [InfoLevel, WarnLevel, ErrorLevel] lineFormatter minutePattern readOnlyOS)) = None
   \<and> logged (snd (snd (NewHook goLib nyBeforeFallBack nyBeforeFallBack
        [InfoLevel, WarnLevel, ErrorLevel] lineFormatter minutePattern readOnlyOS)))
       = [LogCreate ErrPermission]"
proof -
  let ?lv = "[InfoLevel, WarnLevel, ErrorLevel]"
  have a: "rolloverFile goLib nyBeforeFallBack
     \<lparr>levels = ?lv, formatter = lineFormatter,
      FileNamePattern = minutePattern, ConstantPath = [], file' = None, timer = None\<rparr>
     readOnlyOS = (([], Some ErrPermission), bareHook minutePattern, readOnlyOS)"
    by (simp only: bareHook_is_initial rolloverFile_readOnly)
  note T = constructors_log_and_return_nil
    [of goLib nyBeforeFallBack nyBeforeFallBack ?lv lineFormatter minutePattern readOnlyOS
      "''tbrfh''" "bareHook minutePattern" "''entry''" "tb_bareHook minutePattern"
      "[]" ErrPermission "bareHook minutePattern" readOnlyOS]
  from T a have t1: "fst (snd (NewHook goLib nyBeforeFallBack nyBeforeFallBack
        ?lv lineFormatter minutePattern readOnlyOS)) = None"
    and t2: "file' (fst (NewHook goLib nyBeforeFallBack nyBeforeFallBack
        ?lv lineFormatter minutePattern readOnlyOS)) = None"
    and t3: "snd (snd (NewHook goLib nyBeforeFallBack nyBeforeFallBack
        ?lv lineFormatter minutePattern readOnlyOS)) = Printf (LogCreate ErrPermission) readOnlyOS"
    by blast+
  have l: "logged (Printf (LogCreate ErrPermission) readOnlyOS) = [LogCreate ErrPermission]"
    by (simp add: Printf_def readOnlyOS_def emptyOS_def)
  show ?thesis using a t1 t2 l unfolding t3 by blast
qed

section \<open>The writing goroutine\<close>

lemma step_stopped:
  assumes "\<not> fs_writing s"
  shows "\<not> fs_writing (step lib s ev)" and "isServe ev \<Longrightarrow> step lib s ev = s"
proof -
  show "\<not> fs_writing (step lib s ev)"
    using assms by (cases ev) (auto simp: step_def split: option.splits Timer.splits list.splits)
  show "step lib s ev = s" if "isServe ev"
    using that assms by (cases ev) (simp_all add: isServe_def step_def)
qed

lemma run_stopped:
  assumes "\<not> fs_writing s"
  shows "\<not> fs_writing (run lib s evs)
       \<and> run lib s evs = run lib s (filter (\<lambda>ev. \<not> isServe ev) evs)"
  using assms
proof (induction evs arbitrary: s)
  case Nil
  then show ?case by simp
next
  case (Cons ev evs)
  note st = step_stopped [OF Cons.prems, where lib = lib and ev = ev]
  have ih: "\<not> fs_writing (run lib (step lib s ev) evs)
      \<and> run lib (step lib s ev) evs
        = run lib (step lib s ev) (filter (\<lambda>ev. \<not> isServe ev) evs)"
    using st(1) by (rule Cons.IH)
  show ?case
  proof (cases "isServe ev")
    case True
    have e: "step lib s ev = s" using st(2) True by simp
    have r: "run lib s (ev # evs) = run lib s evs" by (simp add: e)
    have f: "filter (\<lambda>ev. \<not> isServe ev) (ev # evs) = filter (\<lambda>ev. \<not> isServe ev) evs"
      using True by simp
    show ?thesis unfolding r f using ih unfolding e .
  next
    case False
    have r: "run lib s (ev # evs) = run lib (step lib s ev) evs" by simp
    have f: "run lib s (filter (\<lambda>ev. \<not> isServe ev) (ev # evs))
        = run lib (step lib s ev) (filter (\<lambda>ev. \<not> isServe ev) evs)"
      using False by simp
    show ?thesis unfolding r f using ih .
  qed
qed

lemma step_Serve_failure:
  assumes "fs_writing s" "fs_queue s = entry # rest"
    and "write' (fs_hook s) (fs_world s) entry = (Some err, h1, w1)"
  shows "step lib s Serve =
           s\<lparr>fs_queue := rest, fs_hook := h1, fs_world := Printf (LogWrite err) w1,
             fs_writing := False\<rparr>"
  using assms by (simp add: step_def writeEntry_def)

lemma tb_step_Serve_failure:
  assumes "tb_writing s" "tb_queue s = entry # rest"
    and "tb_write (tb_hook s) (tb_world s) entry = (Some err, h1, w1)"
  shows "tb_step lib s Serve =
           s\<lparr>tb_queue := rest, tb_hook := h1, tb_world := Printf (LogWrite err) w1\<rparr>"
  using assms by (simp add: tb_step_def tb_writeEntry_def)


lemma rolloverName_app_log:
  "rolloverName goLib t ''/tmp/tbrfh/app.log'' = ''/tmp/tbrfh/app.log''"
  by (simp add: rolloverName_def goLib_def goFormat_app_log Ext_def ToLower_def
      toLowerChar_def GzipSuffix_def del: goFormat.simps)

lemma rolloverAfter_app_log:
  "FileNamePattern h = ''/tmp/tbrfh/app.log'' \<Longrightarrow> rolloverAfter goLib h t = 0"
  "tb_fileNamePattern k = ''/tmp/tbrfh/app.log'' \<Longrightarrow> tb_rolloverAfter goLib k t = 0"
  by (simp_all add: rolloverAfter_def tb_rolloverAfter_def Let_def goLib_def goFormat_app_log
      del: goFormat.simps)

lemma tb_start_app_log:
  "tb_start goLib now1 now2 ''tbrfh'' [InfoLevel, WarnLevel, ErrorLevel] lineFormatter
     ''/tmp/tbrfh/app.log'' w
   = \<lparr>tb_hook = (tb_bareHook ''/tmp/tbrfh/app.log'')
         \<lparr>tb_file := Some \<lparr>Name = ''/tmp/tbrfh/app.log'', ino = 0\<rparr>\<rparr>,
      tb_world = w\<lparr>names := [''/tmp/tbrfh/app.log'' \<mapsto> 0], content := (\<lambda>i. []), nextIno := 1\<rparr>,
      tb_queue = [], tb_writing = True, tb_archiving = []\<rparr>"
  if "w = flakyOS \<or> w = emptyOS"
  using that
  by (auto simp: tb_start_def NewTimeBasedRollingFileHook_def Let_def tb_rolloverFile_eq
      rolloverName_app_log rolloverAfter_app_log closedOld_def OpenFile_def tb_bareHook_def
      flakyOS_def emptyOS_def fun_eq_iff)


lemma start_app_log:
  "start goLib now1 now2 [InfoLevel, WarnLevel, ErrorLevel] lineFormatter
     ''/tmp/tbrfh/app.log'' w
   = \<lparr>fs_hook = (bareHook ''/tmp/tbrfh/app.log'')
         \<lparr>file' := Some \<lparr>Name = ''/tmp/tbrfh/app.log'', ino = 0\<rparr>\<rparr>,
      fs_world = w\<lparr>names := [''/tmp/tbrfh/app.log'' \<mapsto> 0], content := (\<lambda>i. []), nextIno := 1\<rparr>,
      fs_queue = [], fs_writing = True, fs_archiving = []\<rparr>"
  if "w = flakyOS \<or> w = emptyOS"
  using that
  by (auto simp: start_def NewHook_def Let_def rolloverFile_eq
      rolloverName_app_log rolloverAfter_app_log closedOld_def OpenFile_def bareHook_def
      flakyOS_def emptyOS_def fun_eq_iff)

text \<open>
  C2, as the claim states it, fails for \<open>TimeBasedRollingFileHook\<close>: the write of the
  entry \<open>bad\<close> fails and is logged, the goroutine stays in its loop, and the entry \<open>good\<close>,
  enqueued afterwards, is written to the file.
\<close>

theorem tb_serializer_continues_after_failed_write:
  "logged (tb_world (tb_run goLib
      (tb_start goLib nyBeforeFallBack nyBeforeFallBack ''tbrfh''
         [InfoLevel, WarnLevel, ErrorLevel] lineFormatter ''/tmp/tbrfh/app.log'' flakyOS)
      [Fires ''bad'', Serve, Fires ''good'', Serve])) = [LogWrite ErrIO]
   \<and> tb_writing (tb_run goLib
      (tb_start goLib nyBeforeFallBack nyBeforeFallBack ''tbrfh''
         [InfoLevel, WarnLevel, ErrorLevel] lineFormatter ''/tmp/tbrfh/app.log'' flakyOS)
      [Fires ''bad'', Serve, Fires ''good'', Serve])
   \<and> fileContent (tb_world (tb_run goLib
      (tb_start goLib nyBeforeFallBack nyBeforeFallBack ''tbrfh''
         [InfoLevel, WarnLevel, ErrorLevel] lineFormatter ''/tmp/tbrfh/app.log'' flakyOS)
      [Fires ''bad'', Serve, Fires ''good'', Serve])) ''/tmp/tbrfh/app.log''
       = Some (''good'' @ [CHR 0x0A])"
  by (simp add: tb_start_app_log tb_step_def tb_writeEntry_def tb_write_def Write_def appendTo_def
      lineFormatter_def Printf_def queueCap_def tb_bareHook_def flakyOS_def emptyOS_def
      fileContent_def)


text \<open>
  C2, amended. In \<open>FsrollHook\<close>, when \<open>write\<close> returns an error for the entry the writing
  goroutine has received, the goroutine logs it ("Error on writing to file") and
  returns. From then on it does nothing: whatever happens afterwards, the system ends as
  it does when the goroutine's steps are left out, so no entry still in the queue or
  enqueued later is written. In \<open>TimeBasedRollingFileHook\<close> the goroutine logs the error
  and stays in its loop.
\<close>

theorem serializer_ends_after_failed_write_in_FsrollHook:
  fixes s :: "'e FsrollSys" and s' :: "'f TimeBasedSys"
  assumes "fs_writing s" and "fs_queue s = entry # rest"
    and "fst (write' (fs_hook s) (fs_world s) entry) = Some err"
    and "tb_writing s'" and "tb_queue s' = entry' # rest'"
    and "fst (tb_write (tb_hook s') (tb_world s') entry') = Some err'"
  shows "step lib s Serve =
           s\<lparr>fs_queue := rest,
             fs_hook := fst (snd (write' (fs_hook s) (fs_world s) entry)),
             fs_world := Printf (LogWrite err) (snd (snd (write' (fs_hook s) (fs_world s) entry))),
             fs_writing := False\<rparr>
       \<and> logged (fs_world (step lib s Serve))
           = logged (snd (snd (write' (fs_hook s) (fs_world s) entry))) @ [LogWrite err]
       \<and> \<not> fs_writing (run lib (step lib s Serve) evs)
       \<and> run lib (step lib s Serve) evs
           = run lib (step lib s Serve) (filter (\<lambda>ev. \<not> isServe ev) evs)
       \<and> tb_step lib s' Serve =
           s'\<lparr>tb_queue := rest',
              tb_hook := fst (snd (tb_write (tb_hook s') (tb_world s') entry')),
              tb_world :=
                Printf (LogWrite err') (snd (snd (tb_write (tb_hook s') (tb_world s') entry')))\<rparr>
       \<and> tb_writing (tb_step lib s' Serve)"
proof -
  obtain h1 w1 where w: "write' (fs_hook s) (fs_world s) entry = (Some err, h1, w1)"
    using assms(3) by (cases "write' (fs_hook s) (fs_world s) entry") auto
  obtain k1 v1 where v: "tb_write (tb_hook s') (tb_world s') entry' = (Some err', k1, v1)"
    using assms(6) by (cases "tb_write (tb_hook s') (tb_world s') entry'") auto
  have a: "step lib s Serve =
      s\<lparr>fs_queue := rest, fs_hook := h1, fs_world := Printf (LogWrite err) w1,
        fs_writing := False\<rparr>"
    using assms(1,2) w by (rule step_Serve_failure)
  have b: "\<not> fs_writing (step lib s Serve)" by (simp add: a)
  have c: "tb_step lib s' Serve =
      s'\<lparr>tb_queue := rest', tb_hook := k1, tb_world := Printf (LogWrite err') v1\<rparr>"
    using assms(4,5) v by (rule tb_step_Serve_failure)
  have d: "tb_writing (tb_step lib s' Serve)" using assms(4) by (simp add: c)
  have l: "logged (fs_world (step lib s Serve)) = logged w1 @ [LogWrite err]"
    by (simp add: a Printf_def)
  have rs: "\<not> fs_writing (run lib (step lib s Serve) evs)"
    and rf: "run lib (step lib s Serve) evs
           = run lib (step lib s Serve) (filter (\<lambda>ev. \<not> isServe ev) evs)"
    using run_stopped [OF b, of lib evs] by blast+
  show ?thesis
    unfolding w v fst_conv snd_conv using a l rs rf c d by blast
qed

lemma flaky_states:
  "fs_writing (run goLib (start goLib nyBeforeFallBack nyBeforeFallBack
       [InfoLevel, WarnLevel, ErrorLevel] lineFormatter ''/tmp/tbrfh/app.log'' flakyOS)
       [Fires ''bad''])"
  "fs_queue (run goLib (start goLib nyBeforeFallBack nyBeforeFallBack
       [InfoLevel, WarnLevel, ErrorLevel] lineFormatter ''/tmp/tbrfh/app.log'' flakyOS)
       [Fires ''bad'']) = [''bad'']"
  "fst (write'
     (fs_hook (run goLib (start goLib nyBeforeFallBack nyBeforeFallBack
       [InfoLevel, WarnLevel, ErrorLevel] lineFormatter ''/tmp/tbrfh/app.log'' flakyOS)
       [Fires ''bad'']))
     (fs_world (run goLib (start goLib nyBeforeFallBack nyBeforeFallBack
       [InfoLevel, WarnLevel, ErrorLevel] lineFormatter ''/tmp/tbrfh/app.log'' flakyOS)
       [Fires ''bad''])) ''bad'') = Some ErrIO"
  "tb_writing (tb_run goLib (tb_start goLib nyBeforeFallBack nyBeforeFallBack ''tbrfh''
       [InfoLevel, WarnLevel, ErrorLevel] lineFormatter ''/tmp/tbrfh/app.log'' flakyOS)
       [Fires ''bad''])"
  "tb_queue (tb_run goLib (tb_start goLib nyBeforeFallBack nyBeforeFallBack ''tbrfh''
       [InfoLevel, WarnLevel, ErrorLevel] lineFormatter ''/tmp/tbrfh/app.log'' flakyOS)
       [Fires ''bad'']) = [''bad'']"
  "fst (tb_write
     (tb_hook (tb_run goLib (tb_start goLib nyBeforeFallBack nyBeforeFallBack ''tbrfh''
       [InfoLevel, WarnLevel, ErrorLevel] lineFormatter ''/tmp/tbrfh/app.log'' flakyOS)
       [Fires ''bad'']))
     (tb_world (tb_run goLib (tb_start goLib nyBeforeFallBack nyBeforeFallBack ''tbrfh''
       [InfoLevel, WarnLevel, ErrorLevel] lineFormatter ''/tmp/tbrfh/app.log'' flakyOS)
       [Fires ''bad''])) ''bad'') = Some ErrIO"
  by (simp_all add: start_app_log tb_start_app_log step_def tb_step_def queueCap_def write'_def
      tb_write_def Stat_def Write_def lineFormatter_def bareHook_def tb_bareHook_def
      flakyOS_def emptyOS_def Let_def)

theorem serializer_ends_after_failed_write_in_FsrollHook_witness:
  "fs_writing (run goLib (start goLib nyBeforeFallBack nyBeforeFallBack
       [InfoLevel, WarnLevel, ErrorLevel] lineFormatter ''/tmp/tbrfh/app.log'' flakyOS)
       [Fires ''bad''])
   \<and> fs_queue (run goLib (start goLib nyBeforeFallBack nyBeforeFallBack
       [InfoLevel, WarnLevel, ErrorLevel] lineFormatter ''/tmp/tbrfh/app.log'' flakyOS)
       [Fires ''bad'']) = [''bad'']
   \<and> \<not> fs_writing (run goLib
        (step goLib (run goLib (start goLib nyBeforeFallBack nyBeforeFallBack
           [InfoLevel, WarnLevel, ErrorLevel] lineFormatter ''/tmp/tbrfh/app.log'' flakyOS)
           [Fires ''bad'']) Serve)
        [Fires ''good'', Serve])
   \<and> tb_writing (tb_step goLib
        (tb_run goLib (tb_start goLib nyBeforeFallBack nyBeforeFallBack ''tbrfh''
           [InfoLevel, WarnLevel, ErrorLevel] lineFormatter ''/tmp/tbrfh/app.log'' flakyOS)
           [Fires ''bad'']) Serve)
   \<and> fileContent (fs_world (run goLib
        (start goLib nyBeforeFallBack nyBeforeFallBack
           [InfoLevel, WarnLevel, ErrorLevel] lineFormatter ''/tmp/tbrfh/app.log'' flakyOS)
        [Fires ''bad'', Serve, Fires ''good'', Serve])) ''/tmp/tbrfh/app.log'' = Some []"
proof -
  note T = serializer_ends_after_failed_write_in_FsrollHook
    [OF flaky_states, where lib = goLib and evs = "[Fires ''good'', Serve]"]
  have c: "fileContent (fs_world (run goLib
        (start goLib nyBeforeFallBack nyBeforeFallBack
           [InfoLevel, WarnLevel, ErrorLevel] lineFormatter ''/tmp/tbrfh/app.log'' flakyOS)
        [Fires ''bad'', Serve, Fires ''good'', Serve])) ''/tmp/tbrfh/app.log'' = Some []"
    by (simp add: start_app_log step_def writeEntry_def write'_def Stat_def Write_def appendTo_def
      lineFormatter_def Printf_def queueCap_def bareHook_def flakyOS_def emptyOS_def
      fileContent_def Let_def)
  show ?thesis using T flaky_states(1,2) c by blast
qed


section \<open>A live file removed from outside\<close>






end
